theory Spec2Isabelle
  imports Complex_Main "HOL-Library.AList" "HOL-Library.Log_Nat"
begin

section \<open>Data model\<close>

text \<open>
  Python strings are sequences of Unicode code points; a code point is a natural number
  and a string a list of them, so that \<open>length\<close> is Python's \<open>len\<close>. Dictionary keys
  that are ASCII identifiers in the source (\<open>"semantic"\<close>, \<open>"high"\<close>, ...) are HOL
  strings. A Python float is a rational number: the value of a double is rational, and
  the float operations of the source (\<open>+ - * /\<close>, \<open>round\<close>) round their exact
  result to a double, as defined in the section on floating-point arithmetic. The scores
  that the external models return, and what \<open>numpy\<close> computes from them, are given as
  rationals.
\<close>

type_synonym codepoint = nat
type_synonym ustring = "codepoint list"

definition ascii :: "string \<Rightarrow> ustring" where
  "ascii s = map of_char s"

text \<open>The exceptions the modelled code can raise.\<close>

datatype error =
    KeyError
  | IndexError
  | FormatError
  | ModelError
  | HTTPException nat

text \<open>
  The library functions the source calls on strings. They belong to the Python runtime
  and to the \<open>jamo\<close> package, not to the repository, and are parameters of the model:
  \<^item> \<open>lower_at text i\<close> is what \<open>str.lower\<close> produces for the character at
    position \<open>i\<close> of \<open>text\<close> (one character may lower to several, and capital sigma
    depends on its neighbours);
  \<^item> \<open>isspace\<close> is \<open>str.isspace\<close> on one character, which is also the class
    \<open>\s\<close> of \<open>re\<close> on \<open>str\<close> patterns;
  \<^item> \<open>isalnum\<close> is \<open>str.isalnum\<close> on one character; the class \<open>\w\<close> of
    \<open>re\<close> on \<open>str\<close> patterns is \<open>isalnum\<close> or the underscore;
  \<^item> \<open>str_format template input answer\<close> is
    \<open>template.format(input=input, answer=answer)\<close>, which raises on a malformed
    template;
  \<^item> \<open>h2j\<close> is \<open>jamo.h2j\<close>.
\<close>

record pylib =
  lower_at :: "ustring \<Rightarrow> nat \<Rightarrow> ustring"
  isspace :: "codepoint \<Rightarrow> bool"
  isalnum :: "codepoint \<Rightarrow> bool"
  str_format :: "ustring \<Rightarrow> ustring \<Rightarrow> ustring \<Rightarrow> error + ustring"
  h2j :: "ustring \<Rightarrow> ustring"

section \<open>Text normalisation (\<open>SimilarityCalculator.normalize_text\<close>)\<close>

definition str_lower :: "pylib \<Rightarrow> ustring \<Rightarrow> ustring" where
  "str_lower L text = concat (map (lower_at L text) [0..<length text])"

definition re_word :: "pylib \<Rightarrow> codepoint \<Rightarrow> bool" where
  "re_word L c \<longleftrightarrow> isalnum L c \<or> c = 0x5F"

text \<open>The range \<open>U+AC00 .. U+D7A3\<close> written in the character class of the source.\<close>

definition hangul_syllable :: "codepoint \<Rightarrow> bool" where
  "hangul_syllable c \<longleftrightarrow> 0xAC00 \<le> c \<and> c \<le> 0xD7A3"

text \<open>
  \<open>re.sub(r'\s+', '', text)\<close> removes every maximal run of whitespace, that is, every
  whitespace character; \<open>re.sub(r'[^\w\s...]', '', text)\<close> removes every character
  outside the class.
\<close>

definition re_sub_whitespace :: "pylib \<Rightarrow> ustring \<Rightarrow> ustring" where
  "re_sub_whitespace L text = filter (\<lambda>c. \<not> isspace L c) text"

definition re_sub_special :: "pylib \<Rightarrow> ustring \<Rightarrow> ustring" where
  "re_sub_special L text =
     filter (\<lambda>c. re_word L c \<or> isspace L c \<or> hangul_syllable c) text"

definition str_strip :: "pylib \<Rightarrow> ustring \<Rightarrow> ustring" where
  "str_strip L text = rev (dropWhile (isspace L) (rev (dropWhile (isspace L) text)))"

definition normalize_text :: "pylib \<Rightarrow> ustring \<Rightarrow> ustring" where
  "normalize_text L text =
     str_strip L (re_sub_special L (re_sub_whitespace L (str_lower L text)))"

text \<open>
  The normaliser as the specification words it: the third step keeps ASCII word
  characters and Hangul syllables only.
\<close>

definition ascii_word :: "codepoint \<Rightarrow> bool" where
  "ascii_word c \<longleftrightarrow>
     (0x30 \<le> c \<and> c \<le> 0x39) \<or> (0x41 \<le> c \<and> c \<le> 0x5A) \<or> (0x61 \<le> c \<and> c \<le> 0x7A) \<or> c = 0x5F"

definition normalize_spec :: "pylib \<Rightarrow> ustring \<Rightarrow> ustring" where
  "normalize_spec L text =
     filter (\<lambda>c. ascii_word c \<or> hangul_syllable c)
       (filter (\<lambda>c. \<not> isspace L c) (str_lower L text))"

text \<open>
  A concrete library for evaluation: CPython's character tables on the Latin-1 range
  \<open>U+0000 .. U+00FF\<close> and on the Hangul syllables. Other code points are taken as
  caseless symbols; the evaluations below stay inside Latin-1. Templates are formatted
  by \<open>simple_format\<close>, which substitutes the two named fields and has no escapes.
\<close>

definition latin1_lower :: "codepoint \<Rightarrow> codepoint" where
  "latin1_lower c =
     (if (0x41 \<le> c \<and> c \<le> 0x5A) \<or> (0xC0 \<le> c \<and> c \<le> 0xDE \<and> c \<noteq> 0xD7) then c + 0x20 else c)"

definition latin1_isspace :: "codepoint \<Rightarrow> bool" where
  "latin1_isspace c \<longleftrightarrow> (9 \<le> c \<and> c \<le> 13) \<or> (28 \<le> c \<and> c \<le> 32) \<or> c = 0x85 \<or> c = 0xA0"

definition latin1_isalnum :: "codepoint \<Rightarrow> bool" where
  "latin1_isalnum c \<longleftrightarrow>
     (0x30 \<le> c \<and> c \<le> 0x39) \<or> (0x41 \<le> c \<and> c \<le> 0x5A) \<or> (0x61 \<le> c \<and> c \<le> 0x7A)
     \<or> c = 0xAA \<or> c = 0xB2 \<or> c = 0xB3 \<or> c = 0xB5 \<or> c = 0xB9 \<or> c = 0xBA
     \<or> c = 0xBC \<or> c = 0xBD \<or> c = 0xBE
     \<or> (0xC0 \<le> c \<and> c \<le> 0xFF \<and> c \<noteq> 0xD7 \<and> c \<noteq> 0xF7)
     \<or> hangul_syllable c"

fun simple_format :: "ustring \<Rightarrow> ustring \<Rightarrow> ustring \<Rightarrow> ustring" where
  "simple_format [] inp ans = []"
| "simple_format (c # cs) inp ans =
     (if take 7 (c # cs) = ascii ''{input}'' then inp @ simple_format (drop 6 cs) inp ans
      else if take 8 (c # cs) = ascii ''{answer}'' then ans @ simple_format (drop 7 cs) inp ans
      else c # simple_format cs inp ans)"

definition latin1_lib :: pylib where
  "latin1_lib =
     \<lparr> lower_at = (\<lambda>text i. [latin1_lower (text ! i)]),
       isspace = latin1_isspace,
       isalnum = latin1_isalnum,
       str_format = (\<lambda>t inp ans. Inr (simple_format t inp ans)),
       h2j = (\<lambda>s. s) \<rparr>"

section \<open>External capabilities and their invocations\<close>

text \<open>
  The embedding model and the entailment classifier are the two external capabilities.
  A computation returns its result or the exception it raised, together with the list
  of capability invocations it made, in order.
\<close>

datatype call = Embed "ustring list" | Classify ustring

type_synonym 'a run = "call list \<times> (error + 'a)"

definition returns :: "'a \<Rightarrow> 'a run" where
  "returns x = ([], Inr x)"

definition raises :: "error \<Rightarrow> 'a run" where
  "raises e = ([], Inl e)"

definition bind_run :: "'a run \<Rightarrow> ('a \<Rightarrow> 'b run) \<Rightarrow> 'b run" where
  "bind_run m f =
     (case m of
        (t, Inl e) \<Rightarrow> (t, Inl e)
      | (t, Inr x) \<Rightarrow> (case f x of (t', r) \<Rightarrow> (t @ t', r)))"

text \<open>
  One result of the text-classification pipeline: \<open>result['label']\<close> and
  \<open>result['score']\<close>.
\<close>

record nli_result =
  res_label :: string
  res_score :: rat

text \<open>
  \<open>encode\<close> is \<open>SentenceTransformer.encode\<close>, \<open>nli_pipeline\<close> the
  \<open>transformers\<close> pipeline; both may raise. \<open>cosine e0 e1\<close> stands for the
  \<open>numpy\<close> expression \<open>dot(e0, e1) / (norm(e0) * norm(e1))\<close>.
\<close>

record models =
  encode :: "ustring list \<Rightarrow> error + rat list list"
  cosine :: "rat list \<Rightarrow> rat list \<Rightarrow> rat"
  nli_pipeline :: "ustring \<Rightarrow> error + nli_result list"

definition call_encode :: "models \<Rightarrow> ustring list \<Rightarrow> rat list list run" where
  "call_encode M texts = ([Embed texts], encode M texts)"

definition call_nli :: "models \<Rightarrow> ustring \<Rightarrow> nli_result list run" where
  "call_nli M hypothesis = ([Classify hypothesis], nli_pipeline M hypothesis)"

text \<open>\<open>self.nli_pipeline(hypothesis)[0]\<close>: the index raises on an empty list.\<close>

definition classify :: "models \<Rightarrow> ustring \<Rightarrow> nli_result run" where
  "classify M hypothesis =
     bind_run (call_nli M hypothesis)
       (\<lambda>results. case results of [] \<Rightarrow> raises IndexError | r # _ \<Rightarrow> returns r)"

definition render :: "pylib \<Rightarrow> ustring \<Rightarrow> ustring \<Rightarrow> ustring \<Rightarrow> ustring run" where
  "render L template input_text answer = ([], str_format L template input_text answer)"

section \<open>Floating-point arithmetic\<close>

text \<open>
  A Python \<open>float\<close> is an IEEE 754 binary64 number: 53 significant binary digits, the
  least exponent \<open>-1022\<close>, below which the spacing stays \<open>2^-1074\<close>. Every
  arithmetic operation returns the representable number nearest to the exact result, a tie
  going to the one whose last digit is even. Infinities, NaN and the sign of zero are not
  modelled: a result beyond the largest finite double is rounded as if the exponent were
  unbounded.

  \<open>round_half_even\<close> is the nearest integer, ties to even.
\<close>

definition round_half_even :: "rat \<Rightarrow> int" where
  "round_half_even x =
     (let f = \<lfloor>x\<rfloor>; d = x - of_int f
      in if d < 1 / 2 then f else if 1 / 2 < d then f + 1 else if even f then f else f + 1)"

text \<open>
  \<open>ilog2 x\<close> is the binary exponent of a positive \<open>x\<close>, the integer \<open>e\<close> with
  \<open>2^e \<le> x < 2^(e+1)\<close>; \<open>bitlen n\<close> is the number of binary digits of \<open>n\<close>.
\<close>

definition ilog2 :: "rat \<Rightarrow> int" where
  "ilog2 x = (if 1 \<le> x then bitlen \<lfloor>x\<rfloor> - 1 else - bitlen (\<lceil>1 / x\<rceil> - 1))"

text \<open>
  The exponent under which a positive \<open>x\<close> is stored: its binary exponent, or
  \<open>-1022\<close> for a subnormal. With exponent \<open>e\<close>, \<open>x\<close> is rounded to a multiple
  of \<open>2^(e-52)\<close>, the spacing of the doubles between \<open>2^e\<close> and \<open>2^(e+1)\<close>.
\<close>

definition double_exponent :: "rat \<Rightarrow> int" where
  "double_exponent x = max (ilog2 x) (- 1022)"

definition round_magnitude :: "rat \<Rightarrow> rat" where
  "round_magnitude x =
     (let q = 2 powi (double_exponent x - 52)
      in of_int (round_half_even (x / q)) * q)"

text \<open>
  \<open>to_double x\<close> is the double nearest to \<open>x\<close>: the value of a decimal literal, and
  the result of an operation whose exact result is \<open>x\<close>.
\<close>

definition to_double :: "rat \<Rightarrow> rat" where
  "to_double x = (if x = 0 then 0 else sgn x * round_magnitude \<bar>x\<bar>)"

text \<open>
  The float operations \<open>+\<close>, \<open>-\<close> and \<open>*\<close>. An operand that is not itself
  representable (a decimal such as \<open>0.15\<close>) is first read as the double nearest to it,
  so that every rational of the model denotes a double, the one \<open>to_double\<close> gives.
\<close>

definition fadd :: "rat \<Rightarrow> rat \<Rightarrow> rat" where
  "fadd x y = to_double (to_double x + to_double y)"

definition fsub :: "rat \<Rightarrow> rat \<Rightarrow> rat" where
  "fsub x y = to_double (to_double x - to_double y)"

definition fmul :: "rat \<Rightarrow> rat \<Rightarrow> rat" where
  "fmul x y = to_double (to_double x * to_double y)"

text \<open>\<open>a / b\<close> of two integers: the double nearest to the exact quotient.\<close>

definition truediv :: "nat \<Rightarrow> nat \<Rightarrow> rat" where
  "truediv a b = to_double (of_nat a / of_nat b)"

text \<open>
  \<open>round(x, ndigits)\<close> of a float: the exact value of the double \<open>x\<close> is rounded to
  the nearest multiple of \<open>10^-ndigits\<close>, ties to even, and the double nearest to that
  decimal is returned. The model returns the decimal, which denotes that double.
\<close>

definition py_round :: "rat \<Rightarrow> nat \<Rightarrow> rat" where
  "py_round x ndigits =
     of_int (round_half_even (to_double x * 10 ^ ndigits)) / 10 ^ ndigits"

section \<open>Python built-ins used by the scorers\<close>

text \<open>
  \<open>max(iterable, key=...)\<close> keeps the first maximal element: the running best is
  replaced only by a strictly greater key.
\<close>

fun max_by :: "('a \<Rightarrow> rat) \<Rightarrow> 'a \<Rightarrow> 'a list \<Rightarrow> 'a" where
  "max_by key best [] = best"
| "max_by key best (x # xs) = max_by key (if key best < key x then x else best) xs"

text \<open>
  \<open>numpy.mean\<close> of a non-empty list: the quotient of the sum by the count. The sum and
  the quotient are computed by \<open>numpy\<close>, not by the repository, and are taken exactly
  here.
\<close>

definition mean :: "rat list \<Rightarrow> rat" where
  "mean xs = sum_list xs / of_nat (length xs)"

text \<open>\<open>d[k]\<close> raises \<open>KeyError\<close> on a missing key; \<open>d.get(k, default)\<close> does not.\<close>

definition dict_item :: "('k \<rightharpoonup> 'v) \<Rightarrow> 'k \<Rightarrow> 'v run" where
  "dict_item d k = (case d k of None \<Rightarrow> raises KeyError | Some v \<Rightarrow> returns v)"

definition dict_get :: "('k \<rightharpoonup> 'v) \<Rightarrow> 'k \<Rightarrow> 'v \<Rightarrow> 'v" where
  "dict_get d k dflt = (case d k of None \<Rightarrow> dflt | Some v \<Rightarrow> v)"

text \<open>
  \<open>s.replace(old, new)\<close>: left to right, non-overlapping; an empty \<open>old\<close> matches
  before every character and at the end.
\<close>

fun replace_nonempty :: "'a list \<Rightarrow> 'a list \<Rightarrow> 'a list \<Rightarrow> 'a list" where
  "replace_nonempty old new [] = []"
| "replace_nonempty old new (c # cs) =
     (if take (length old) (c # cs) = old
      then new @ replace_nonempty old new (drop (length old - 1) cs)
      else c # replace_nonempty old new cs)"

definition str_replace :: "'a list \<Rightarrow> 'a list \<Rightarrow> 'a list \<Rightarrow> 'a list" where
  "str_replace old new s =
     (if old = [] then new @ concat (map (\<lambda>c. c # new) s) else replace_nonempty old new s)"

section \<open>Semantic and relational scorers\<close>

text \<open>
  \<open>cosine_sim\<close> is a \<open>numpy\<close> scalar, and \<open>(cosine_sim + 1) / 2\<close> is computed
  by \<open>numpy\<close> in the precision of the embeddings; it is taken exactly here. In the
  affirmative loop \<open>result['score'] * 0.5\<close> is a float product.
\<close>

definition calculate_semantic_similarity :: "models \<Rightarrow> ustring \<Rightarrow> ustring \<Rightarrow> rat run" where
  "calculate_semantic_similarity M input_text answer =
     bind_run (call_encode M [input_text, answer])
       (\<lambda>embeddings. case embeddings of
           e0 # e1 # _ \<Rightarrow> returns ((cosine M e0 e1 + 1) / 2)
         | _ \<Rightarrow> raises IndexError)"

fun affirmative_loop ::
  "pylib \<Rightarrow> models \<Rightarrow> ustring \<Rightarrow> ustring \<Rightarrow> ustring list \<Rightarrow> rat list \<Rightarrow> rat list run" where
  "affirmative_loop L M input_text answer [] entailment_scores = returns entailment_scores"
| "affirmative_loop L M input_text answer (template # rest) entailment_scores =
     bind_run (render L template input_text answer) (\<lambda>hypothesis.
     bind_run (classify M hypothesis) (\<lambda>result.
       affirmative_loop L M input_text answer rest
         (entailment_scores @
            [if res_label result = ''entailment'' then res_score result
             else if res_label result = ''neutral'' then fmul (res_score result) 0.5
             else 0])))"

fun contradiction_loop ::
  "pylib \<Rightarrow> models \<Rightarrow> ustring \<Rightarrow> ustring \<Rightarrow> ustring list \<Rightarrow> rat list \<Rightarrow> rat list run" where
  "contradiction_loop L M input_text answer [] contradiction_scores =
     returns contradiction_scores"
| "contradiction_loop L M input_text answer (template # rest) contradiction_scores =
     bind_run (render L template input_text answer) (\<lambda>hypothesis.
     bind_run (classify M hypothesis) (\<lambda>result.
       contradiction_loop L M input_text answer rest
         (if res_label result = ''entailment''
          then contradiction_scores @ [res_score result]
          else contradiction_scores)))"

definition calculate_relational_similarity ::
  "pylib \<Rightarrow> models \<Rightarrow> ustring \<Rightarrow> ustring \<Rightarrow> ustring list \<Rightarrow> ustring list \<Rightarrow> (rat \<times> rat) run" where
  "calculate_relational_similarity L M input_text answer templates contradiction_templates =
     bind_run (affirmative_loop L M input_text answer templates []) (\<lambda>entailment_scores.
     bind_run (contradiction_loop L M input_text answer contradiction_templates [])
       (\<lambda>contradiction_scores.
          returns
            (if entailment_scores \<noteq> [] then mean entailment_scores else 0,
             case contradiction_scores of [] \<Rightarrow> 0 | c # cs \<Rightarrow> max_by (\<lambda>x. x) c cs)))"

section \<open>Relationship classifier (\<open>analyze_relationship_type\<close>)\<close>

text \<open>
  A dictionary whose iteration order matters is an association list in insertion order;
  \<open>AList.update\<close> is the assignment \<open>d[k] = v\<close>: in place for a key already
  present, at the end otherwise. The template is rendered outside the \<open>try\<close> block,
  the classifier is called inside it: an exception of the classifier gives score 0.
\<close>

definition general :: ustring where
  "general = [0xC77C, 0xBC18]"

text \<open>
  The body of the loop for one taxonomy entry: render the hypothesis, then score it
  inside the \<open>try\<close> block.
\<close>

definition relationship_score :: "models \<Rightarrow> ustring \<Rightarrow> rat run" where
  "relationship_score M hypothesis =
     (case classify M hypothesis of
        (t, Inr result) \<Rightarrow>
          (t, Inr (if res_label result = ''entailment'' then res_score result else 0))
      | (t, Inl e) \<Rightarrow> (t, Inr 0))"

definition entry_score :: "pylib \<Rightarrow> models \<Rightarrow> ustring \<Rightarrow> ustring \<Rightarrow> ustring \<Rightarrow> rat run" where
  "entry_score L M input_text answer template =
     bind_run (render L template input_text answer) (relationship_score M)"

text \<open>The per-entry scores of a taxonomy, in declaration order.\<close>

definition entry_scores ::
  "pylib \<Rightarrow> models \<Rightarrow> ustring \<Rightarrow> ustring \<Rightarrow> (ustring \<times> ustring) list \<Rightarrow> (error + rat) list" where
  "entry_scores L M input_text answer taxonomy =
     map (\<lambda>e. snd (entry_score L M input_text answer (snd e))) taxonomy"

fun analyze_loop ::
  "pylib \<Rightarrow> models \<Rightarrow> ustring \<Rightarrow> ustring \<Rightarrow> (ustring \<times> ustring) list
     \<Rightarrow> (ustring \<times> rat) list \<Rightarrow> (ustring \<times> rat) list run" where
  "analyze_loop L M input_text answer [] relationship_scores = returns relationship_scores"
| "analyze_loop L M input_text answer ((rel_type, template) # rest) relationship_scores =
     bind_run (entry_score L M input_text answer template) (\<lambda>s.
       analyze_loop L M input_text answer rest
         (AList.update rel_type s relationship_scores))"

definition analyze_relationship_type ::
  "pylib \<Rightarrow> models \<Rightarrow> ustring \<Rightarrow> ustring \<Rightarrow> (ustring \<times> ustring) list \<Rightarrow> (ustring \<times> rat) run" where
  "analyze_relationship_type L M input_text answer relationship_templates =
     bind_run (analyze_loop L M input_text answer relationship_templates [])
       (\<lambda>relationship_scores. case relationship_scores of
           [] \<Rightarrow> returns (general, 0)
         | b # bs \<Rightarrow> returns (max_by snd b bs))"

section \<open>Formative scorer\<close>

text \<open>
  One pass of the inner loop of \<open>_levenshtein_distance\<close>: the row for the character
  \<open>c1\<close> at position \<open>i\<close> of \<open>s1\<close>, from the previous row. In the source
  \<open>c1 != c2\<close> is a boolean added to an integer.
\<close>

definition levenshtein_row :: "'a \<Rightarrow> nat \<Rightarrow> 'a list \<Rightarrow> nat list \<Rightarrow> nat list" where
  "levenshtein_row c1 i s2 previous_row =
     foldl (\<lambda>current_row j.
              let insertions = previous_row ! (j + 1) + 1;
                  deletions = current_row ! j + 1;
                  substitutions = previous_row ! j + (if c1 \<noteq> s2 ! j then 1 else 0)
              in current_row @ [min insertions (min deletions substitutions)])
       [i + 1] [0..<length s2]"

definition levenshtein_rows :: "'a list \<Rightarrow> 'a list \<Rightarrow> nat list" where
  "levenshtein_rows s1 s2 =
     foldl (\<lambda>previous_row i. levenshtein_row (s1 ! i) i s2 previous_row)
       [0..<length s2 + 1] [0..<length s1]"

function levenshtein_distance :: "'a list \<Rightarrow> 'a list \<Rightarrow> nat" where
  "levenshtein_distance s1 s2 =
     (if length s1 < length s2 then levenshtein_distance s2 s1
      else if length s2 = 0 then length s1
      else last (levenshtein_rows s1 s2))"
  by pat_completeness auto
termination
  by (relation "measure (\<lambda>(s1, s2). if length s1 < length s2 then 1 else 0)") auto

declare levenshtein_distance.simps [simp del]

definition calculate_formative_similarity :: "pylib \<Rightarrow> ustring \<Rightarrow> ustring \<Rightarrow> rat" where
  "calculate_formative_similarity L input_text answer =
     (let input_jamo = h2j L input_text;
          answer_jamo = h2j L answer;
          distance = levenshtein_distance input_jamo answer_jamo;
          max_len = max (length input_jamo) (length answer_jamo)
      in if max_len = 0 then 1
         else max 0 (fsub 1 (truediv distance max_len)))"

text \<open>
  The edit distance by its recurrence on the first characters, for comparison with the
  row-by-row computation of the source.
\<close>

fun edit_distance :: "'a list \<Rightarrow> 'a list \<Rightarrow> nat" where
  "edit_distance [] ys = length ys"
| "edit_distance (x # xs) [] = Suc (length xs)"
| "edit_distance (x # xs) (y # ys) =
     min (edit_distance xs (y # ys) + 1)
       (min (edit_distance (x # xs) ys + 1)
          (edit_distance xs ys + (if x \<noteq> y then 1 else 0)))"

section \<open>Score fusion (\<open>calculate_combined_similarity\<close>)\<close>

record similarity_result =
  similarity_score :: rat
  breakdown :: "string \<rightharpoonup> rat"

text \<open>
  The weighted average, the contradiction penalty, the clipping and the rounding: the
  last block of \<open>calculate_combined_similarity\<close>, after the four signals are known.
  Each \<open>+\<close>, \<open>-\<close> and \<open>*\<close> of the source is the float operation, in the
  order in which Python evaluates them.
\<close>

definition fuse_scores ::
  "(string \<rightharpoonup> rat) \<Rightarrow> rat \<Rightarrow> rat \<Rightarrow> rat \<Rightarrow> rat \<Rightarrow> similarity_result run" where
  "fuse_scores weights semantic_score relation_score formative_score contradiction_score =
     bind_run (dict_item weights ''semantic'') (\<lambda>w_semantic.
     bind_run (dict_item weights ''relational'') (\<lambda>w_relational.
     bind_run (dict_item weights ''formative'') (\<lambda>w_formative.
       let weighted_score =
             fadd (fadd (fmul semantic_score w_semantic) (fmul relation_score w_relational))
               (fmul formative_score w_formative);
           weighted_score = fsub weighted_score (fmul contradiction_score 0.15);
           weighted_score = max 0 (min 1 weighted_score);
           final_score = fmul weighted_score 100
       in returns
            \<lparr> similarity_score = py_round final_score 2,
              breakdown =
                [''semantic'' \<mapsto> py_round semantic_score 4,
                 ''relational'' \<mapsto> py_round relation_score 4,
                 ''formative'' \<mapsto> py_round formative_score 4,
                 ''contradiction'' \<mapsto> py_round contradiction_score 4] \<rparr>)))"

definition calculate_combined_similarity ::
  "pylib \<Rightarrow> models \<Rightarrow> ustring \<Rightarrow> ustring \<Rightarrow> (string \<rightharpoonup> rat) \<Rightarrow> ustring list \<Rightarrow> ustring list
     \<Rightarrow> similarity_result run" where
  "calculate_combined_similarity L M input_text answer weights nli_templates
       contradiction_templates =
     (let input_normalized = normalize_text L input_text;
          answer_normalized = normalize_text L answer
      in if input_normalized = answer_normalized
         then returns
                \<lparr> similarity_score = 100,
                  breakdown =
                    [''semantic'' \<mapsto> 1, ''relational'' \<mapsto> 1, ''formative'' \<mapsto> 1,
                     ''contradiction'' \<mapsto> 0] \<rparr>
         else
           bind_run (calculate_semantic_similarity M input_text answer) (\<lambda>semantic_score.
           bind_run (calculate_relational_similarity L M input_text answer nli_templates
                       contradiction_templates) (\<lambda>(relation_score, contradiction_score).
             fuse_scores weights semantic_score relation_score
               (calculate_formative_similarity L input_normalized answer_normalized)
               contradiction_score)))"

section \<open>Hint generator\<close>

text \<open>
  The three dictionaries a \<open>HintGenerator\<close> is constructed with. The threshold table
  is enumerated by the source (its keys are sorted) and is an association list; the
  inner dictionary of \<open>contextual_templates\<close> is tested for emptiness and is one too.
\<close>

record hint_generator =
  hint_thresholds :: "(int \<times> ustring) list"
  contextual_templates :: "ustring \<rightharpoonup> (string \<times> ustring) list"
  detail_suffixes :: "string \<rightharpoonup> ustring"

definition correct_answer_hint :: ustring where
  "correct_answer_hint = [0xC815, 0xB2F5, 0xC785, 0xB2C8, 0xB2E4, 0x21, 0x20, 0x1F389]"

text \<open>The literal returned by \<open>_get_detail_hint\<close> when contradiction exceeds 0.6.\<close>

definition opposite_meaning_hint :: ustring where
  "opposite_meaning_hint =
     [0xD558, 0xC9C0, 0xB9CC, 0x20, 0xBC18, 0xB300, 0x20, 0xC758, 0xBBF8, 0xB294, 0x20,
      0xC544, 0xB2C8, 0xC5D0, 0xC694]"

text \<open>The defaults of the three \<open>detail_suffixes.get\<close> calls.\<close>

definition semantic_high_default :: ustring where
  "semantic_high_default =
     [0xC758, 0xBBF8, 0xC801, 0xC73C, 0xB85C, 0x20, 0xAC00, 0xAE4C, 0xC6CC, 0xC694]"

definition relational_high_default :: ustring where
  "relational_high_default =
     [0xC0C1, 0xD669, 0xC774, 0xB098, 0x20, 0xB9E5, 0xB77D, 0xC740, 0x20, 0xB9DE, 0xC544,
      0xC694]"

definition formative_high_default :: ustring where
  "formative_high_default =
     [0xCCA0, 0xC790, 0xAC00, 0x20, 0xB9E4, 0xC6B0, 0x20, 0xBE44, 0xC2B7, 0xD574, 0xC694]"

definition generate_contextual_hint ::
  "hint_generator \<Rightarrow> ustring \<Rightarrow> rat \<Rightarrow> ustring option \<Rightarrow> rat \<Rightarrow> ustring" where
  "generate_contextual_hint H user_input score relationship_type relationship_confidence =
     (case relationship_type of
        None \<Rightarrow> []
      | Some rel \<Rightarrow>
          if rel = [] \<or> relationship_confidence < 0.3 then []
          else if score < 15 then []
          else
            (let templates = dict_get (contextual_templates H) rel [] in
             if templates = [] then []
             else
               (let hint_level =
                      (if 0.7 \<le> relationship_confidence \<and> 50 \<le> score then ''high''
                       else if 0.5 \<le> relationship_confidence \<or> 30 \<le> score then ''medium''
                       else ''low'');
                    hint_template =
                      dict_get (map_of templates) hint_level
                        (dict_get (map_of templates) ''medium'' [])
                in if hint_template = [] then []
                   else str_replace (ascii ''{input}'') user_input hint_template)))"

definition get_base_hint :: "hint_generator \<Rightarrow> rat \<Rightarrow> ustring run" where
  "get_base_hint H score =
     (case find (\<lambda>threshold. of_int threshold \<le> score)
             (rev (sort (map fst (hint_thresholds H)))) of
        Some threshold \<Rightarrow> dict_item (map_of (hint_thresholds H)) threshold
      | None \<Rightarrow> dict_item (map_of (hint_thresholds H)) 0)"

definition get_detail_hint :: "hint_generator \<Rightarrow> (string \<rightharpoonup> rat) \<Rightarrow> rat \<Rightarrow> ustring" where
  "get_detail_hint H bd score =
     (let semantic = dict_get bd ''semantic'' 0;
          relational = dict_get bd ''relational'' 0;
          formative = dict_get bd ''formative'' 0;
          contradiction = dict_get bd ''contradiction'' 0
      in if 0.6 < contradiction then opposite_meaning_hint
         else if score < 20 then []
         else
           (let component_name =
                  fst (max_by snd (''semantic'', semantic)
                         [(''relational'', relational), (''formative'', formative)])
            in if component_name = ''semantic'' \<and> 0.6 < semantic
               then (if relational < 0.3
                     then dict_get (detail_suffixes H) ''semantic_high'' semantic_high_default
                     else [])
               else if component_name = ''relational'' \<and> 0.6 < relational
               then (if semantic < 0.3
                     then dict_get (detail_suffixes H) ''relational_high''
                            relational_high_default
                     else [])
               else if component_name = ''formative'' \<and> 0.7 < formative
               then dict_get (detail_suffixes H) ''formative_high'' formative_high_default
               else []))"

definition generate_hint ::
  "hint_generator \<Rightarrow> rat \<Rightarrow> (string \<rightharpoonup> rat) \<Rightarrow> ustring \<Rightarrow> ustring \<Rightarrow> ustring option \<Rightarrow> rat
     \<Rightarrow> ustring run" where
  "generate_hint H score bd user_input answer relationship_type relationship_confidence =
     (if score = 100 then returns correct_answer_hint
      else
        (let contextual_hint =
               generate_contextual_hint H user_input score relationship_type
                 relationship_confidence;
             detail_hint = get_detail_hint H bd score
         in if contextual_hint \<noteq> []
            then (if detail_hint \<noteq> [] \<and> 60 \<le> score
                  then returns (contextual_hint @ ascii ''. '' @ detail_hint)
                  else returns contextual_hint)
            else
              bind_run (get_base_hint H score) (\<lambda>base_hint.
                if detail_hint \<noteq> [] then returns (base_hint @ ascii '' '' @ detail_hint)
                else returns base_hint)))"

definition generate_category_hint :: "ustring \<Rightarrow> ustring \<Rightarrow> bool" where
  "generate_category_hint user_input answer = False"

section \<open>Configuration (\<open>config.py\<close>)\<close>

text \<open>The constants of the configuration module, strings by their code points.\<close>

definition WEIGHTS :: "string \<rightharpoonup> rat" where
  "WEIGHTS = [''semantic'' \<mapsto> 0.50, ''relational'' \<mapsto> 0.35, ''formative'' \<mapsto> 0.15]"

definition NLI_TEMPLATES :: "ustring list" where
  "NLI_TEMPLATES =
     [[0x7B, 0x69, 0x6E, 0x70, 0x75, 0x74, 0x7D, 0xC740, 0x20, 0x7B, 0x61, 0x6E,
        0x73, 0x77, 0x65, 0x72, 0x7D, 0xACFC, 0x20, 0xAD00, 0xB828, 0xC774, 0x20,
        0xC788, 0xB2E4, 0x2E],
      [0x7B, 0x69, 0x6E, 0x70, 0x75, 0x74, 0x7D, 0xB294, 0x20, 0x7B, 0x61, 0x6E,
        0x73, 0x77, 0x65, 0x72, 0x7D, 0xC640, 0x20, 0xAC19, 0xC740, 0x20, 0xB9E5,
        0xB77D, 0xC5D0, 0xC11C, 0x20, 0xC5B8, 0xAE09, 0xB41C, 0xB2E4, 0x2E],
      [0x7B, 0x69, 0x6E, 0x70, 0x75, 0x74, 0x7D, 0xB294, 0x20, 0x7B, 0x61, 0x6E,
        0x73, 0x77, 0x65, 0x72, 0x7D, 0xC758, 0x20, 0xC0C1, 0xD669, 0xC5D0, 0xC11C,
        0x20, 0xB098, 0xD0C0, 0xB0A0, 0x20, 0xC218, 0x20, 0xC788, 0xB2E4, 0x2E],
      [0x7B, 0x69, 0x6E, 0x70, 0x75, 0x74, 0x7D, 0xC640, 0x20, 0x7B, 0x61, 0x6E,
        0x73, 0x77, 0x65, 0x72, 0x7D, 0xB294, 0x20, 0xBE44, 0xC2B7, 0xD55C, 0x20,
        0xC758, 0xBBF8, 0xB97C, 0x20, 0xAC00, 0xC9C4, 0xB2E4, 0x2E]]"

definition CONTRADICTION_TEMPLATES :: "ustring list" where
  "CONTRADICTION_TEMPLATES =
     [[0x7B, 0x69, 0x6E, 0x70, 0x75, 0x74, 0x7D, 0xC740, 0x20, 0x7B, 0x61, 0x6E,
        0x73, 0x77, 0x65, 0x72, 0x7D, 0xACFC, 0x20, 0xBC18, 0xB300, 0xB418, 0xB294,
        0x20, 0xC758, 0xBBF8, 0xB2E4, 0x2E],
      [0x7B, 0x69, 0x6E, 0x70, 0x75, 0x74, 0x7D, 0xC640, 0x20, 0x7B, 0x61, 0x6E,
        0x73, 0x77, 0x65, 0x72, 0x7D, 0xB294, 0x20, 0xC11C, 0xB85C, 0x20, 0xC0C1,
        0xBC18, 0xB41C, 0xB2E4, 0x2E]]"

definition HINT_THRESHOLDS :: "(int \<times> ustring) list" where
  "HINT_THRESHOLDS =
     [(95,
       [0xAC70, 0xC758, 0x20, 0xC815, 0xB2F5, 0xC774, 0xC5D0, 0xC694, 0x21, 0x20,
         0xB354, 0x20, 0xC815, 0xD655, 0xD55C, 0x20, 0xD45C, 0xD604, 0xC774, 0x20,
         0xC788, 0xC5B4, 0xC694, 0x2E]),
      (80,
       [0xC544, 0xC8FC, 0x20, 0xAC00, 0xAE4C, 0xC6CC, 0xC694, 0x21, 0x20, 0xC870,
         0xAE08, 0xB9CC, 0x20, 0xB354, 0x20, 0xC0DD, 0xAC01, 0xD574, 0xBCF4, 0xC138,
         0xC694, 0x2E]),
      (60,
       [0xBE44, 0xC2B7, 0xD55C, 0x20, 0xBC29, 0xD5A5, 0xC774, 0xC5D0, 0xC694, 0x2E,
         0x20, 0xB354, 0x20, 0xAD6C, 0xCCB4, 0xC801, 0xC73C, 0xB85C, 0x20, 0xD45C,
         0xD604, 0xD574, 0xBCF4, 0xC138, 0xC694, 0x2E]),
      (40,
       [0xAD00, 0xB828, 0xC774, 0x20, 0xC788, 0xC9C0, 0xB9CC, 0x20, 0xC815, 0xD655,
         0xD558, 0xC9C0, 0x20, 0xC54A, 0xC544, 0xC694, 0x2E]),
      (20,
       [0xBC29, 0xD5A5, 0xC774, 0x20, 0xC870, 0xAE08, 0x20, 0xB2E4, 0xB978, 0x20,
         0xAC83, 0x20, 0xAC19, 0xC544, 0xC694, 0x2E]),
      (0,
       [0xC804, 0xD600, 0x20, 0xB2E4, 0xB978, 0x20, 0xBC29, 0xD5A5, 0xC774, 0xC5D0,
         0xC694, 0x2E, 0x20, 0xB2E4, 0xC2DC, 0x20, 0xC0DD, 0xAC01, 0xD574, 0xBCF4,
         0xC138, 0xC694, 0x2E])]"

definition RELATIONSHIP_ANALYSIS_TEMPLATES :: "(ustring \<times> ustring) list" where
  "RELATIONSHIP_ANALYSIS_TEMPLATES =
     [([0xC0C1, 0xD669, 0xBC1C, 0xC0DD],
       [0x7B, 0x61, 0x6E, 0x73, 0x77, 0x65, 0x72, 0x7D, 0xB294, 0x20, 0x7B, 0x69,
         0x6E, 0x70, 0x75, 0x74, 0x7D, 0x20, 0xC0C1, 0xD669, 0xC5D0, 0xC11C, 0x20,
         0xBC1C, 0xC0DD, 0xD560, 0x20, 0xC218, 0x20, 0xC788, 0xB2E4, 0x2E]),
      ([0xAC10, 0xC815, 0xC6D0, 0xC778],
       [0x7B, 0x69, 0x6E, 0x70, 0x75, 0x74, 0x7D, 0xB294, 0x20, 0x7B, 0x61, 0x6E,
         0x73, 0x77, 0x65, 0x72, 0x7D, 0xC758, 0x20, 0xC6D0, 0xC778, 0xC774, 0x20,
         0xB420, 0x20, 0xC218, 0x20, 0xC788, 0xB2E4, 0x2E]),
      ([0xC18D, 0xC131, 0xAD00, 0xACC4],
       [0x7B, 0x61, 0x6E, 0x73, 0x77, 0x65, 0x72, 0x7D, 0xB294, 0x20, 0x7B, 0x69,
         0x6E, 0x70, 0x75, 0x74, 0x7D, 0xC758, 0x20, 0xD2B9, 0xC131, 0xC744, 0x20,
         0xAC00, 0xC9C0, 0xACE0, 0x20, 0xC788, 0xB2E4, 0x2E]),
      ([0xC7A5, 0xC18C, 0xAD00, 0xACC4],
       [0x7B, 0x61, 0x6E, 0x73, 0x77, 0x65, 0x72, 0x7D, 0xB294, 0x20, 0x7B, 0x69,
         0x6E, 0x70, 0x75, 0x74, 0x7D, 0xC5D0, 0xC11C, 0x20, 0xC77C, 0xC5B4, 0xB098,
         0xB294, 0x20, 0xC77C, 0xC774, 0xB2E4, 0x2E]),
      ([0xC0AC, 0xB78C, 0xAD00, 0xACC4],
       [0x7B, 0x61, 0x6E, 0x73, 0x77, 0x65, 0x72, 0x7D, 0xB294, 0x20, 0x7B, 0x69,
         0x6E, 0x70, 0x75, 0x74, 0x7D, 0x20, 0xC0AC, 0xC774, 0xC5D0, 0xC11C, 0x20,
         0xB098, 0xD0C0, 0xB098, 0xB294, 0x20, 0xAC83, 0xC774, 0xB2E4, 0x2E]),
      ([0xC720, 0xC0AC, 0xC7A5, 0xB974],
       [0x7B, 0x61, 0x6E, 0x73, 0x77, 0x65, 0x72, 0x7D, 0xB294, 0x20, 0x7B, 0x69,
         0x6E, 0x70, 0x75, 0x74, 0x7D, 0xC640, 0x20, 0xBE44, 0xC2B7, 0xD55C, 0x20,
         0xC885, 0xB958, 0xB2E4, 0x2E]),
      ([0xBC18, 0xB300, 0xAD00, 0xACC4],
       [0x7B, 0x61, 0x6E, 0x73, 0x77, 0x65, 0x72, 0x7D, 0xB294, 0x20, 0x7B, 0x69,
         0x6E, 0x70, 0x75, 0x74, 0x7D, 0xACFC, 0x20, 0xBC18, 0xB300, 0xB418, 0xB294,
         0x20, 0xAC83, 0xC774, 0xB2E4, 0x2E]),
      ([0xBD80, 0xBD84, 0xC804, 0xCCB4],
       [0x7B, 0x61, 0x6E, 0x73, 0x77, 0x65, 0x72, 0x7D, 0xB294, 0x20, 0x7B, 0x69,
         0x6E, 0x70, 0x75, 0x74, 0x7D, 0xC758, 0x20, 0xC77C, 0xBD80, 0xBD84, 0xC774,
         0xB2E4, 0x2E]),
      ([0xC2DC, 0xAC04, 0xAD00, 0xACC4],
       [0x7B, 0x61, 0x6E, 0x73, 0x77, 0x65, 0x72, 0x7D, 0xB294, 0x20, 0x7B, 0x69,
         0x6E, 0x70, 0x75, 0x74, 0x7D, 0x20, 0xB54C, 0x20, 0xC77C, 0xC5B4, 0xB098,
         0xB294, 0x20, 0xAC83, 0xC774, 0xB2E4, 0x2E]),
      ([0xACB0, 0xACFC, 0xAD00, 0xACC4],
       [0x7B, 0x61, 0x6E, 0x73, 0x77, 0x65, 0x72, 0x7D, 0xB294, 0x20, 0x7B, 0x69,
         0x6E, 0x70, 0x75, 0x74, 0x7D, 0xC758, 0x20, 0xACB0, 0xACFC, 0xB85C, 0x20,
         0xC0DD, 0xAE30, 0xB294, 0x20, 0xAC83, 0xC774, 0xB2E4, 0x2E])]"

definition CONTEXTUAL_HINT_TEMPLATES :: "ustring \<rightharpoonup> (string \<times> ustring) list" where
  "CONTEXTUAL_HINT_TEMPLATES =
     map_of
     [([0xC0C1, 0xD669, 0xBC1C, 0xC0DD],
       [(''high'',
         [0x7B, 0x69, 0x6E, 0x70, 0x75, 0x74, 0x7D, 0x20, 0xC0C1, 0xD669, 0xC5D0,
           0xC11C, 0x20, 0xB098, 0xD0C0, 0xB098, 0xB294, 0x20, 0xAC83, 0xC774, 0xC5D0,
           0xC694]),
        (''medium'',
         [0x7B, 0x69, 0x6E, 0x70, 0x75, 0x74, 0x7D, 0xC640, 0x2F, 0xACFC, 0x20,
           0xAD00, 0xB828, 0xB41C, 0x20, 0xC0C1, 0xD669, 0xC5D0, 0xC11C, 0x20, 0xC77C,
           0xC5B4, 0xB098, 0xB294, 0x20, 0xC77C, 0xC774, 0xC5D0, 0xC694]),
        (''low'',
         [0x7B, 0x69, 0x6E, 0x70, 0x75, 0x74, 0x7D, 0x20, 0xB9E5, 0xB77D, 0xACFC,
           0x20, 0xC5F0, 0xACB0, 0xB41C, 0x20, 0xAC1C, 0xB150, 0xC774, 0xC5D0, 0xC694])]),
      ([0xAC10, 0xC815, 0xC6D0, 0xC778],
       [(''high'',
         [0x7B, 0x69, 0x6E, 0x70, 0x75, 0x74, 0x7D, 0xC5D0, 0xC11C, 0x20, 0xBE44,
           0xB86F, 0xB418, 0xB294, 0x20, 0xAC10, 0xC815, 0xC774, 0xB098, 0x20, 0xD589,
           0xB3D9, 0xC774, 0xC5D0, 0xC694]),
        (''medium'',
         [0x7B, 0x69, 0x6E, 0x70, 0x75, 0x74, 0x7D, 0x20, 0xB54C, 0xBB38, 0xC5D0,
           0x20, 0xC0DD, 0xAE38, 0x20, 0xC218, 0x20, 0xC788, 0xB294, 0x20, 0xAC83,
           0xC774, 0xC5D0, 0xC694]),
        (''low'',
         [0x7B, 0x69, 0x6E, 0x70, 0x75, 0x74, 0x7D, 0xC640, 0x2F, 0xACFC, 0x20,
           0xC778, 0xACFC, 0xAD00, 0xACC4, 0xAC00, 0x20, 0xC788, 0xC5B4, 0xC694])]),
      ([0xC18D, 0xC131, 0xAD00, 0xACC4],
       [(''high'',
         [0x7B, 0x69, 0x6E, 0x70, 0x75, 0x74, 0x7D, 0xC758, 0x20, 0xC131, 0xC9C8,
           0xC744, 0x20, 0xAC00, 0xC9C4, 0x20, 0xAC83, 0xC774, 0xC5D0, 0xC694]),
        (''medium'',
         [0x7B, 0x69, 0x6E, 0x70, 0x75, 0x74, 0x7D, 0xC640, 0x2F, 0xACFC, 0x20,
           0xBE44, 0xC2B7, 0xD55C, 0x20, 0xD2B9, 0xC9D5, 0xC774, 0x20, 0xC788, 0xC5B4,
           0xC694]),
        (''low'',
         [0x7B, 0x69, 0x6E, 0x70, 0x75, 0x74, 0x7D, 0x20, 0xACC4, 0xC5F4, 0xC758,
           0x20, 0xAC83, 0xC774, 0xC5D0, 0xC694])]),
      ([0xC7A5, 0xC18C, 0xAD00, 0xACC4],
       [(''high'',
         [0x7B, 0x69, 0x6E, 0x70, 0x75, 0x74, 0x7D, 0xC5D0, 0xC11C, 0x20, 0xACBD,
           0xD5D8, 0xD560, 0x20, 0xC218, 0x20, 0xC788, 0xB294, 0x20, 0xAC83, 0xC774,
           0xC5D0, 0xC694]),
        (''medium'',
         [0x7B, 0x69, 0x6E, 0x70, 0x75, 0x74, 0x7D, 0xC640, 0x2F, 0xACFC, 0x20,
           0xAD00, 0xB828, 0xB41C, 0x20, 0xC7A5, 0xC18C, 0xC5D0, 0xC11C, 0x20, 0xC77C,
           0xC5B4, 0xB098, 0xB294, 0x20, 0xC77C, 0xC774, 0xC5D0, 0xC694]),
        (''low'',
         [0x7B, 0x69, 0x6E, 0x70, 0x75, 0x74, 0x7D, 0x20, 0xACF5, 0xAC04, 0xACFC,
           0x20, 0xC5F0, 0xACB0, 0xB418, 0xC5B4, 0x20, 0xC788, 0xC5B4, 0xC694])]),
      ([0xC0AC, 0xB78C, 0xAD00, 0xACC4],
       [(''high'',
         [0x7B, 0x69, 0x6E, 0x70, 0x75, 0x74, 0x7D, 0x20, 0xC0AC, 0xC774, 0xC5D0,
           0xC11C, 0x20, 0xB098, 0xD0C0, 0xB098, 0xB294, 0x20, 0xAC83, 0xC774, 0xC5D0,
           0xC694]),
        (''medium'',
         [0x7B, 0x69, 0x6E, 0x70, 0x75, 0x74, 0x7D, 0x20, 0xAD00, 0xACC4, 0xC5D0,
           0xC11C, 0x20, 0xBC1C, 0xC0DD, 0xD560, 0x20, 0xC218, 0x20, 0xC788, 0xB294,
           0x20, 0xC77C, 0xC774, 0xC5D0, 0xC694]),
        (''low'',
         [0x7B, 0x69, 0x6E, 0x70, 0x75, 0x74, 0x7D, 0xC640, 0x2F, 0xACFC, 0x20,
           0xAD00, 0xB828, 0xB41C, 0x20, 0xC778, 0xAC04, 0xAD00, 0xACC4, 0x20, 0xAC1C,
           0xB150, 0xC774, 0xC5D0, 0xC694])]),
      ([0xC720, 0xC0AC, 0xC7A5, 0xB974],
       [(''high'',
         [0x7B, 0x69, 0x6E, 0x70, 0x75, 0x74, 0x7D, 0xC640, 0x2F, 0xACFC, 0x20,
           0xBE44, 0xC2B7, 0xD55C, 0x20, 0xBC29, 0xC2DD, 0xC73C, 0xB85C, 0x20, 0xC9C4,
           0xD589, 0xB418, 0xB294, 0x20, 0xAC83, 0xC774, 0xC5D0, 0xC694]),
        (''medium'',
         [0x7B, 0x69, 0x6E, 0x70, 0x75, 0x74, 0x7D, 0xC640, 0x2F, 0xACFC, 0x20,
           0xAC19, 0xC740, 0x20, 0xC885, 0xB958, 0xC5D0, 0x20, 0xC18D, 0xD574, 0xC694]),
        (''low'',
         [0x7B, 0x69, 0x6E, 0x70, 0x75, 0x74, 0x7D, 0x20, 0xACC4, 0xC5F4, 0xC758,
           0x20, 0xB610, 0x20, 0xB2E4, 0xB978, 0x20, 0xAC83, 0xC774, 0xC5D0, 0xC694])]),
      ([0xBC18, 0xB300, 0xAD00, 0xACC4],
       [(''high'',
         [0x7B, 0x69, 0x6E, 0x70, 0x75, 0x74, 0x7D, 0xACFC, 0xB294, 0x20, 0xBC18,
           0xB300, 0xB418, 0xB294, 0x20, 0xAC1C, 0xB150, 0xC774, 0xC5D0, 0xC694]),
        (''medium'',
         [0x7B, 0x69, 0x6E, 0x70, 0x75, 0x74, 0x7D, 0xC758, 0x20, 0xBC18, 0xB300,
           0x20, 0xBC29, 0xD5A5, 0xC5D0, 0x20, 0xC788, 0xB294, 0x20, 0xAC83, 0xC774,
           0xC5D0, 0xC694]),
        (''low'',
         [0x7B, 0x69, 0x6E, 0x70, 0x75, 0x74, 0x7D, 0xC640, 0x2F, 0xACFC, 0x20,
           0xB300, 0xC870, 0xC801, 0xC778, 0x20, 0xAC83, 0xC774, 0xC5D0, 0xC694])]),
      ([0xBD80, 0xBD84, 0xC804, 0xCCB4],
       [(''high'',
         [0x7B, 0x69, 0x6E, 0x70, 0x75, 0x74, 0x7D, 0xC758, 0x20, 0xD55C, 0x20,
           0xBD80, 0xBD84, 0xC774, 0xC5D0, 0xC694]),
        (''medium'',
         [0x7B, 0x69, 0x6E, 0x70, 0x75, 0x74, 0x7D, 0xB97C, 0x2F, 0xC744, 0x20,
           0xAD6C, 0xC131, 0xD558, 0xB294, 0x20, 0xC694, 0xC18C, 0xC608, 0xC694]),
        (''low'',
         [0x7B, 0x69, 0x6E, 0x70, 0x75, 0x74, 0x7D, 0xC640, 0x2F, 0xACFC, 0x20,
           0xD3EC, 0xD568, 0xAD00, 0xACC4, 0xC5D0, 0x20, 0xC788, 0xC5B4, 0xC694])]),
      ([0xC2DC, 0xAC04, 0xAD00, 0xACC4],
       [(''high'',
         [0x7B, 0x69, 0x6E, 0x70, 0x75, 0x74, 0x7D, 0x20, 0xC2DC, 0xAE30, 0xC5D0,
           0x20, 0xC77C, 0xC5B4, 0xB098, 0xB294, 0x20, 0xAC83, 0xC774, 0xC5D0, 0xC694]),
        (''medium'',
         [0x7B, 0x69, 0x6E, 0x70, 0x75, 0x74, 0x7D, 0x20, 0xB54C, 0x20, 0xACBD,
           0xD5D8, 0xD558, 0xB294, 0x20, 0xAC83, 0xC774, 0xC5D0, 0xC694]),
        (''low'',
         [0x7B, 0x69, 0x6E, 0x70, 0x75, 0x74, 0x7D, 0xC640, 0x2F, 0xACFC, 0x20,
           0xC2DC, 0xAC04, 0xC801, 0xC73C, 0xB85C, 0x20, 0xC5F0, 0xACB0, 0xB418,
           0xC5B4, 0x20, 0xC788, 0xC5B4, 0xC694])]),
      ([0xACB0, 0xACFC, 0xAD00, 0xACC4],
       [(''high'',
         [0x7B, 0x69, 0x6E, 0x70, 0x75, 0x74, 0x7D, 0xC758, 0x20, 0xACB0, 0xACFC,
           0xB85C, 0x20, 0xB098, 0xD0C0, 0xB098, 0xB294, 0x20, 0xAC83, 0xC774, 0xC5D0,
           0xC694]),
        (''medium'',
         [0x7B, 0x69, 0x6E, 0x70, 0x75, 0x74, 0x7D, 0x20, 0xC774, 0xD6C4, 0xC5D0,
           0x20, 0xC0DD, 0xAE30, 0xB294, 0x20, 0xAC83, 0xC774, 0xC5D0, 0xC694]),
        (''low'',
         [0x7B, 0x69, 0x6E, 0x70, 0x75, 0x74, 0x7D, 0xC5D0, 0xC11C, 0x20, 0xD30C,
           0xC0DD, 0xB41C, 0x20, 0xAC83, 0xC774, 0xC5D0, 0xC694])])]"

definition DETAIL_HINT_SUFFIX :: "string \<rightharpoonup> ustring" where
  "DETAIL_HINT_SUFFIX =
     map_of
     [(''semantic_high'',
       [0xC758, 0xBBF8, 0xC801, 0xC73C, 0xB85C, 0x20, 0xB9E4, 0xC6B0, 0x20, 0xAC00,
         0xAE4C, 0xC6CC, 0xC694]),
      (''relational_high'',
       [0xB9E5, 0xB77D, 0xC774, 0xB098, 0x20, 0xC0C1, 0xD669, 0xC740, 0x20, 0xC815,
         0xD655, 0xD574, 0xC694]),
      (''formative_high'',
       [0xCCA0, 0xC790, 0xAC00, 0x20, 0xAC70, 0xC758, 0x20, 0xBE44, 0xC2B7, 0xD574,
         0xC694]),
      (''contradiction'',
       [0xD558, 0xC9C0, 0xB9CC, 0x20, 0xC815, 0xBC18, 0xB300, 0x20, 0xC758, 0xBBF8,
         0xB294, 0x20, 0xC544, 0xB2C8, 0xC5D0, 0xC694])]"

section \<open>The request handler (\<open>main.calculate_similarity\<close>)\<close>

text \<open>
  The response without its \<open>processing_time_ms\<close>, which is a clock reading. The hint
  generator that \<open>lifespan\<close> constructs from the configuration is
  \<open>configured_hint_generator\<close>.
\<close>

record similarity_response =
  response_score :: rat
  hint :: ustring
  category_match :: bool
  response_breakdown :: "string \<rightharpoonup> rat"

definition configured_hint_generator :: hint_generator where
  "configured_hint_generator =
     \<lparr> hint_thresholds = HINT_THRESHOLDS,
       contextual_templates = CONTEXTUAL_HINT_TEMPLATES,
       detail_suffixes = DETAIL_HINT_SUFFIX \<rparr>"

definition identical_word_hint :: ustring where
  "identical_word_hint =
     [0xC815, 0xB2F5, 0xACFC, 0x20, 0xC644, 0xC804, 0xD788, 0x20, 0xB3D9, 0xC77C, 0xD55C,
      0x20, 0xB2E8, 0xC5B4, 0xC608, 0xC694, 0x21]"

text \<open>
  The two globals are \<open>None\<close> until the models are loaded. An exception inside the
  \<open>try\<close> block becomes the HTTP error 500.
\<close>

definition calculate_similarity ::
  "pylib \<Rightarrow> models option \<Rightarrow> hint_generator option \<Rightarrow> ustring \<Rightarrow> ustring
     \<Rightarrow> similarity_response run" where
  "calculate_similarity L similarity_calculator hint_gen user_input answer =
     (case (similarity_calculator, hint_gen) of
        (Some M, Some H) \<Rightarrow>
          (case
             (if normalize_text L user_input = normalize_text L answer
              then returns
                     \<lparr> response_score = 100,
                       hint = identical_word_hint,
                       category_match = True,
                       response_breakdown =
                         [''semantic'' \<mapsto> 1, ''relational'' \<mapsto> 1, ''formative'' \<mapsto> 1,
                          ''contradiction'' \<mapsto> 0] \<rparr>
              else
                bind_run (calculate_combined_similarity L M user_input answer WEIGHTS
                            NLI_TEMPLATES CONTRADICTION_TEMPLATES) (\<lambda>result.
                bind_run (analyze_relationship_type L M user_input answer
                            RELATIONSHIP_ANALYSIS_TEMPLATES)
                  (\<lambda>(relationship_type, relationship_confidence).
                bind_run (generate_hint H (similarity_score result) (breakdown result)
                            user_input answer (Some relationship_type)
                            relationship_confidence) (\<lambda>hint_text.
                  returns
                    \<lparr> response_score = similarity_score result,
                      hint = hint_text,
                      category_match = generate_category_hint user_input answer,
                      response_breakdown = breakdown result \<rparr>))))
           of
             (t, Inl e) \<Rightarrow> (t, Inl (HTTPException 500))
           | (t, Inr response) \<Rightarrow> (t, Inr response))
      | _ \<Rightarrow> raises (HTTPException 503))"

section \<open>Stub capabilities for evaluation\<close>

text \<open>
  A classifier that answers every hypothesis with the label \<open>neutral\<close>, and one that
  answers with \<open>entailment\<close> at a confidence read off a table of hypotheses; neither
  embeds anything but the zero vector with cosine given as a constant.
\<close>

definition neutral_models :: models where
  "neutral_models =
     \<lparr> encode = (\<lambda>texts. Inr (map (\<lambda>t. []) texts)),
       cosine = (\<lambda>e0 e1. 0),
       nli_pipeline = (\<lambda>h. Inr [\<lparr> res_label = ''neutral'', res_score = 0.9 \<rparr>]) \<rparr>"

definition table_models :: "rat \<Rightarrow> (ustring \<times> rat) list \<Rightarrow> models" where
  "table_models cos_value table =
     \<lparr> encode = (\<lambda>texts. Inr (map (\<lambda>t. []) texts)),
       cosine = (\<lambda>e0 e1. cos_value),
       nli_pipeline =
         (\<lambda>h. case map_of table h of
                 Some p \<Rightarrow> Inr [\<lparr> res_label = ''entailment'', res_score = p \<rparr>]
               | None \<Rightarrow> Inr [\<lparr> res_label = ''contradiction'', res_score = 0.9 \<rparr>]) \<rparr>"

definition failing_models :: models where
  "failing_models =
     \<lparr> encode = (\<lambda>texts. Inl ModelError),
       cosine = (\<lambda>e0 e1. 0),
       nli_pipeline = (\<lambda>h. Inl ModelError) \<rparr>"

definition sample_taxonomy :: "(ustring \<times> ustring) list" where
  "sample_taxonomy =
     [(ascii ''cause'', ascii ''{input} causes {answer}''),
      (ascii ''part'', ascii ''{input} is part of {answer}''),
      (ascii ''kind'', ascii ''{input} is a kind of {answer}'')]"

definition sample_table :: "(ustring \<times> rat) list" where
  "sample_table =
     [(ascii ''rain causes flood'', 0.5),
      (ascii ''rain is part of flood'', 0.7),
      (ascii ''rain is a kind of flood'', 0.7)]"

definition sample_nli_templates :: "ustring list" where
  "sample_nli_templates = [ascii ''{input} relates to {answer}'']"

definition sample_contradiction_templates :: "ustring list" where
  "sample_contradiction_templates = [ascii ''{input} opposes {answer}'']"

definition strong_contradiction_table :: "(ustring \<times> rat) list" where
  "strong_contradiction_table =
     [(ascii ''ab relates to ac'', 0.2), (ascii ''ab opposes ac'', 0.8)]"

definition weak_contradiction_table :: "(ustring \<times> rat) list" where
  "weak_contradiction_table =
     [(ascii ''ab relates to ac'', 0.2), (ascii ''ab opposes ac'', 0.3)]"

text \<open>
  The first configured relationship type, and the contextual hint its \<open>high\<close>
  template gives for the guess \<open>rain\<close>.
\<close>

definition situation_type :: ustring where
  "situation_type = [0xC0C1, 0xD669, 0xBC1C, 0xC0DD]"

definition rain_situation_hint :: ustring where
  "rain_situation_hint =
     ascii ''rain'' @
     [0x20, 0xC0C1, 0xD669, 0xC5D0, 0xC11C, 0x20, 0xB098, 0xD0C0, 0xB098, 0xB294, 0x20,
      0xAC83, 0xC774, 0xC5D0, 0xC694]"

section \<open>Properties of the normaliser\<close>

lemma str_strip_no_space:
  assumes "\<forall>c \<in> set s. \<not> isspace L c"
  shows "str_strip L s = s"
proof -
  have a: "dropWhile (isspace L) s = s"
    using assms by (cases s) simp_all
  have "\<forall>c \<in> set (rev s). \<not> isspace L c"
    using assms by simp
  then have b: "dropWhile (isspace L) (rev s) = rev s"
    by (cases "rev s") simp_all
  show ?thesis
    by (simp add: str_strip_def a b)
qed

lemma special_after_whitespace:
  "re_sub_special L (filter (\<lambda>c. \<not> isspace L c) s) =
     filter (\<lambda>c. re_word L c \<or> hangul_syllable c) (filter (\<lambda>c. \<not> isspace L c) s)"
  unfolding re_sub_special_def by (rule filter_cong[OF refl]) auto

lemma normalize_text_filter:
  "normalize_text L s =
     filter (\<lambda>c. re_word L c \<or> hangul_syllable c)
       (filter (\<lambda>c. \<not> isspace L c) (str_lower L s))"
proof -
  let ?r = "filter (\<lambda>c. re_word L c \<or> hangul_syllable c)
       (filter (\<lambda>c. \<not> isspace L c) (str_lower L s))"
  have "\<forall>c \<in> set ?r. \<not> isspace L c"
    by simp
  then have "str_strip L ?r = ?r"
    by (rule str_strip_no_space)
  then show ?thesis
    by (simp only: normalize_text_def re_sub_whitespace_def special_after_whitespace)
qed

text \<open>
  C4 (amended). \<open>normalize_text\<close> is a total function of its input that lowercases,
  then deletes every whitespace character, then deletes every character that is neither
  a word character in the Unicode sense of \<open>\w\<close> (alphanumeric in any script, or the
  underscore) nor a Hangul syllable; the empty string is normalised to the empty string.
\<close>

theorem normalize_text_steps:
  "normalize_text L s =
     filter (\<lambda>c. re_word L c \<or> hangul_syllable c)
       (filter (\<lambda>c. \<not> isspace L c) (str_lower L s))
   \<and> normalize_text L [] = []"
  by (simp add: normalize_text_filter str_lower_def)

text \<open>
  C4 as stated fails: the letter \<open>U+00E9\<close> (e with acute accent) is not an ASCII word
  character, yet the normaliser keeps it, where the specification's wording deletes it.
\<close>

theorem normalize_text_not_ascii_only:
  "normalize_text latin1_lib [0xE9] = [0xE9] \<and> normalize_spec latin1_lib [0xE9] = []"
  by (simp add: normalize_text_filter normalize_spec_def str_lower_def latin1_lib_def
      latin1_lower_def latin1_isspace_def latin1_isalnum_def re_word_def ascii_word_def
      hangul_syllable_def)

section \<open>Properties of the relationship classifier\<close>

lemmas run_simps = bind_run_def returns_def raises_def render_def classify_def call_nli_def
  call_encode_def relationship_score_def entry_score_def entry_scores_def

lemma bind_run_Inr:
  "snd (bind_run m f) = Inr y \<longleftrightarrow> (\<exists>x. snd m = Inr x \<and> snd (f x) = Inr y)"
  by (cases m) (auto simp: bind_run_def split: sum.splits prod.splits)

lemma snd_returns [simp]: "snd (returns x) = Inr x"
  by (simp add: returns_def)

lemma update_fresh:
  "k \<notin> fst ` set al \<Longrightarrow> AList.update k v al = al @ [(k, v)]"
  by (induction al) auto

lemma analyze_loop_scores:
  assumes "snd (analyze_loop L M inp ans tax acc) = Inr scores"
    and "distinct (map fst tax)"
    and "fst ` set acc \<inter> fst ` set tax = {}"
  shows "\<exists>ss. length ss = length tax
           \<and> (\<forall>j < length tax. snd (entry_score L M inp ans (snd (tax ! j))) = Inr (ss ! j))
           \<and> scores = acc @ zip (map fst tax) ss"
  using assms
proof (induction tax arbitrary: acc)
  case Nil
  then show ?case by simp
next
  case (Cons e tax)
  obtain k tpl where e: "e = (k, tpl)" by (cases e)
  from Cons.prems(1) obtain s where
    s: "snd (entry_score L M inp ans tpl) = Inr s"
    and r: "snd (analyze_loop L M inp ans tax (AList.update k s acc)) = Inr scores"
    by (auto simp: e bind_run_Inr)
  have fresh: "k \<notin> fst ` set acc"
    using Cons.prems(3) by (auto simp: e)
  have upd: "AList.update k s acc = acc @ [(k, s)]"
    using fresh by (rule update_fresh)
  have d: "distinct (map fst tax)" using Cons.prems(2) by simp
  have disj: "fst ` set (AList.update k s acc) \<inter> fst ` set tax = {}"
    using Cons.prems(2,3) by (auto simp: e upd)
  from Cons.IH[OF r d disj] obtain ss where ss:
    "length ss = length tax"
    "\<forall>j < length tax. snd (entry_score L M inp ans (snd (tax ! j))) = Inr (ss ! j)"
    "scores = AList.update k s acc @ zip (map fst tax) ss"
    by blast
  have "\<forall>j < length (e # tax). snd (entry_score L M inp ans (snd ((e # tax) ! j))) = Inr ((s # ss) ! j)"
  proof (intro allI impI)
    fix j assume "j < length (e # tax)"
    then show "snd (entry_score L M inp ans (snd ((e # tax) ! j))) = Inr ((s # ss) ! j)"
      using s ss(2) by (cases j) (auto simp: e)
  qed
  moreover have "scores = acc @ zip (map fst (e # tax)) (s # ss)"
    using ss(3) by (simp add: upd e)
  moreover have "length (s # ss) = length (e # tax)" using ss(1) by simp
  ultimately show ?case by blast
qed

lemma max_by_first_max:
  "(max_by key best xs = best \<and> (\<forall>x \<in> set xs. key x \<le> key best))
   \<or> (\<exists>i < length xs. max_by key best xs = xs ! i \<and> key best < key (xs ! i)
        \<and> (\<forall>j < i. key (xs ! j) < key (xs ! i)) \<and> (\<forall>x \<in> set xs. key x \<le> key (xs ! i)))"
proof (induction xs arbitrary: best)
  case Nil
  then show ?case by simp
next
  case (Cons x xs)
  show ?case
  proof (cases "key best < key x")
    case True
    from Cons.IH[of x] show ?thesis
    proof
      assume a: "max_by key x xs = x \<and> (\<forall>y \<in> set xs. key y \<le> key x)"
      have "0 < length (x # xs)" by simp
      moreover have "max_by key best (x # xs) = (x # xs) ! 0" using a True by simp
      moreover have "\<forall>y \<in> set (x # xs). key y \<le> key ((x # xs) ! 0)" using a by simp
      ultimately show ?thesis using True by (intro disjI2 exI[of _ 0]) simp
    next
      assume "\<exists>i < length xs. max_by key x xs = xs ! i \<and> key x < key (xs ! i)
        \<and> (\<forall>j < i. key (xs ! j) < key (xs ! i)) \<and> (\<forall>y \<in> set xs. key y \<le> key (xs ! i))"
      then obtain i where i: "i < length xs" "max_by key x xs = xs ! i" "key x < key (xs ! i)"
        "\<forall>j < i. key (xs ! j) < key (xs ! i)" "\<forall>y \<in> set xs. key y \<le> key (xs ! i)"
        by blast
      have "\<forall>j < Suc i. key ((x # xs) ! j) < key ((x # xs) ! Suc i)"
      proof (intro allI impI)
        fix j assume "j < Suc i"
        then show "key ((x # xs) ! j) < key ((x # xs) ! Suc i)"
          using i(3,4) by (cases j) auto
      qed
      moreover have "key best < key ((x # xs) ! Suc i)" using True i(3) by simp
      moreover have "\<forall>y \<in> set (x # xs). key y \<le> key ((x # xs) ! Suc i)"
        using i(3,5) by auto
      moreover have "max_by key best (x # xs) = (x # xs) ! Suc i" using True i(2) by simp
      moreover have "Suc i < length (x # xs)" using i(1) by simp
      ultimately show ?thesis by blast
    qed
  next
    case False
    from Cons.IH[of best] show ?thesis
    proof
      assume a: "max_by key best xs = best \<and> (\<forall>y \<in> set xs. key y \<le> key best)"
      then show ?thesis using False by auto
    next
      assume "\<exists>i < length xs. max_by key best xs = xs ! i \<and> key best < key (xs ! i)
        \<and> (\<forall>j < i. key (xs ! j) < key (xs ! i)) \<and> (\<forall>y \<in> set xs. key y \<le> key (xs ! i))"
      then obtain i where i: "i < length xs" "max_by key best xs = xs ! i" "key best < key (xs ! i)"
        "\<forall>j < i. key (xs ! j) < key (xs ! i)" "\<forall>y \<in> set xs. key y \<le> key (xs ! i)"
        by blast
      have "\<forall>j < Suc i. key ((x # xs) ! j) < key ((x # xs) ! Suc i)"
      proof (intro allI impI)
        fix j assume "j < Suc i"
        then show "key ((x # xs) ! j) < key ((x # xs) ! Suc i)"
          using i(3,4) False by (cases j) auto
      qed
      moreover have "key best < key ((x # xs) ! Suc i)" using i(3) by simp
      moreover have "\<forall>y \<in> set (x # xs). key y \<le> key ((x # xs) ! Suc i)"
        using i(3,5) False by auto
      moreover have "max_by key best (x # xs) = (x # xs) ! Suc i" using False i(2) by simp
      moreover have "Suc i < length (x # xs)" using i(1) by simp
      ultimately show ?thesis by blast
    qed
  qed
qed

lemma max_by_index:
  "\<exists>i < length (b # bs). max_by key b bs = (b # bs) ! i
      \<and> (\<forall>j < i. key ((b # bs) ! j) < key ((b # bs) ! i))
      \<and> (\<forall>x \<in> set (b # bs). key x \<le> key ((b # bs) ! i))"
  using max_by_first_max[of key b bs]
proof
  assume "max_by key b bs = b \<and> (\<forall>x \<in> set bs. key x \<le> key b)"
  then show ?thesis by (intro exI[of _ 0]) simp
next
  assume "\<exists>i < length bs. max_by key b bs = bs ! i \<and> key b < key (bs ! i)
        \<and> (\<forall>j < i. key (bs ! j) < key (bs ! i)) \<and> (\<forall>x \<in> set bs. key x \<le> key (bs ! i))"
  then obtain i where i: "i < length bs" "max_by key b bs = bs ! i" "key b < key (bs ! i)"
    "\<forall>j < i. key (bs ! j) < key (bs ! i)" "\<forall>x \<in> set bs. key x \<le> key (bs ! i)"
    by blast
  have "\<forall>j < Suc i. key ((b # bs) ! j) < key ((b # bs) ! Suc i)"
  proof (intro allI impI)
    fix j assume "j < Suc i"
    then show "key ((b # bs) ! j) < key ((b # bs) ! Suc i)"
      using i(3,4) by (cases j) auto
  qed
  moreover have "\<forall>x \<in> set (b # bs). key x \<le> key ((b # bs) ! Suc i)"
    using i(3,5) by auto
  moreover have "max_by key b bs = (b # bs) ! Suc i" using i(2) by simp
  moreover have "Suc i < length (b # bs)" using i(1) by simp
  ultimately show ?thesis by blast
qed

text \<open>
  C5. When the classifier returns a type \<open>t\<close> with confidence \<open>c\<close> for a non-empty
  taxonomy (a dictionary, so its keys are distinct), \<open>t\<close> names an entry whose score is
  \<open>c\<close>, no entry scores more than \<open>c\<close>, and every entry declared before it scores
  strictly less: the maximum is selected and a tie goes to the first entry in declaration
  order. The result is a function of the taxonomy and the classifier outputs.
\<close>

theorem analyze_selects_first_maximum:
  assumes "snd (analyze_relationship_type L M inp ans taxonomy) = Inr (t, c)"
    and "taxonomy \<noteq> []"
    and "distinct (map fst taxonomy)"
  shows "\<exists>i < length taxonomy.
           fst (taxonomy ! i) = t
         \<and> snd (entry_score L M inp ans (snd (taxonomy ! i))) = Inr c
         \<and> (\<forall>j < length taxonomy.
               \<exists>s. snd (entry_score L M inp ans (snd (taxonomy ! j))) = Inr s \<and> s \<le> c)
         \<and> (\<forall>j < i.
               \<exists>s. snd (entry_score L M inp ans (snd (taxonomy ! j))) = Inr s \<and> s < c)"
proof -
  from assms(1) obtain scores where
    loop: "snd (analyze_loop L M inp ans taxonomy []) = Inr scores"
    and res: "snd (case scores of [] \<Rightarrow> returns (general, 0) | b # bs \<Rightarrow> returns (max_by snd b bs))
                = Inr (t, c)"
    by (auto simp: analyze_relationship_type_def bind_run_Inr)
  from analyze_loop_scores[OF loop assms(3)] obtain ss where ss:
    "length ss = length taxonomy"
    "\<forall>j < length taxonomy. snd (entry_score L M inp ans (snd (taxonomy ! j))) = Inr (ss ! j)"
    "scores = zip (map fst taxonomy) ss"
    by auto
  have len: "length scores = length taxonomy" using ss(1,3) by simp
  then obtain b bs where bbs: "scores = b # bs"
    using assms(2) by (cases scores) auto
  have nth: "\<And>j. j < length taxonomy \<Longrightarrow> scores ! j = (fst (taxonomy ! j), ss ! j)"
    using ss(1,3) by simp
  from res bbs have m: "max_by snd b bs = (t, c)" by simp
  from max_by_index[of b bs snd] obtain i where i:
    "i < length scores" "max_by snd b bs = scores ! i"
    "\<forall>j < i. snd (scores ! j) < snd (scores ! i)"
    "\<forall>x \<in> set scores. snd x \<le> snd (scores ! i)"
    unfolding bbs by blast
  have i_len: "i < length taxonomy" using i(1) len by simp
  have tc: "(fst (taxonomy ! i), ss ! i) = (t, c)"
    using m i(2) nth[OF i_len] by simp
  have le: "\<forall>j < length taxonomy. ss ! j \<le> c"
  proof (intro allI impI)
    fix j assume j: "j < length taxonomy"
    then have "scores ! j \<in> set scores" using len by simp
    then have "snd (scores ! j) \<le> snd (scores ! i)" using i(4) by blast
    then show "ss ! j \<le> c" using nth[OF j] nth[OF i_len] tc by simp
  qed
  have lt: "\<forall>j < i. ss ! j < c"
  proof (intro allI impI)
    fix j assume j: "j < i"
    then have jl: "j < length taxonomy" using i_len by simp
    have "snd (scores ! j) < snd (scores ! i)" using i(3) j by blast
    then show "ss ! j < c" using nth[OF jl] nth[OF i_len] tc by simp
  qed
  show ?thesis
  proof (intro exI[of _ i] conjI)
    show "i < length taxonomy" by (rule i_len)
    show "fst (taxonomy ! i) = t" using tc by simp
    show "snd (entry_score L M inp ans (snd (taxonomy ! i))) = Inr c"
      using ss(2) i_len tc by simp
    show "\<forall>j < length taxonomy.
            \<exists>s. snd (entry_score L M inp ans (snd (taxonomy ! j))) = Inr s \<and> s \<le> c"
      using ss(2) le by blast
    show "\<forall>j < i. \<exists>s. snd (entry_score L M inp ans (snd (taxonomy ! j))) = Inr s \<and> s < c"
      using ss(2) lt i_len by (meson less_trans)
  qed
qed

lemma update_all_zero:
  "\<forall>x \<in> set al. snd x = (0::rat) \<Longrightarrow> \<forall>x \<in> set (AList.update k 0 al). snd x = 0"
  by (induction al) auto

lemma update_hd:
  "AList.update k v al \<noteq> []
   \<and> fst (hd (AList.update k v al)) = (if al = [] then k else fst (hd al))"
  by (cases al) auto

lemma analyze_loop_all_zero:
  assumes "\<forall>e \<in> set tax. snd (entry_score L M inp ans (snd e)) = Inr 0"
    and "\<forall>x \<in> set acc. snd x = 0"
  shows "\<exists>scores. snd (analyze_loop L M inp ans tax acc) = Inr scores
           \<and> (\<forall>x \<in> set scores. snd x = 0)
           \<and> (scores = [] \<longleftrightarrow> acc = [] \<and> tax = [])
           \<and> (scores \<noteq> [] \<longrightarrow>
                fst (hd scores) = (if acc = [] then fst (hd tax) else fst (hd acc)))"
  using assms
proof (induction tax arbitrary: acc)
  case Nil
  then show ?case by simp
next
  case (Cons e tax)
  obtain k tpl where e: "e = (k, tpl)" by (cases e)
  have s: "snd (entry_score L M inp ans tpl) = Inr 0"
    using Cons.prems(1) by (simp add: e)
  have z: "\<forall>x \<in> set (AList.update k 0 acc). snd x = 0"
    using Cons.prems(2) by (rule update_all_zero)
  have rest: "\<forall>e \<in> set tax. snd (entry_score L M inp ans (snd e)) = Inr 0"
    using Cons.prems(1) by simp
  from Cons.IH[OF rest z] obtain scores where sc:
    "snd (analyze_loop L M inp ans tax (AList.update k 0 acc)) = Inr scores"
    "\<forall>x \<in> set scores. snd x = 0"
    "scores = [] \<longleftrightarrow> AList.update k 0 acc = [] \<and> tax = []"
    "scores \<noteq> [] \<longrightarrow> fst (hd scores) =
       (if AList.update k 0 acc = [] then fst (hd tax) else fst (hd (AList.update k 0 acc)))"
    by blast
  have run: "snd (analyze_loop L M inp ans (e # tax) acc) = Inr scores"
    using s sc(1) by (simp add: e bind_run_Inr)
  have ne: "scores \<noteq> []" using sc(3) update_hd[of k 0 acc] by simp
  have "fst (hd scores) = (if acc = [] then fst (hd (e # tax)) else fst (hd acc))"
    using sc(4) ne update_hd[of k 0 acc] by (simp add: e)
  then show ?case using run sc(2) ne by auto
qed

lemma max_by_all_zero:
  "snd b = (0::rat) \<Longrightarrow> \<forall>x \<in> set bs. snd x = 0 \<Longrightarrow> max_by snd b bs = b"
  by (induction bs) auto

text \<open>
  C1 (amended). When every per-entry score is 0, the result of the classifier has
  confidence 0; its type is the fallback \<open>general\<close> when the taxonomy is empty, and
  the type name of the first taxonomy entry otherwise.
\<close>

theorem analyze_all_zero:
  assumes "\<forall>e \<in> set taxonomy. snd (entry_score L M inp ans (snd e)) = Inr 0"
  shows "snd (analyze_relationship_type L M inp ans taxonomy) =
           Inr (if taxonomy = [] then (general, 0) else (fst (hd taxonomy), 0))"
proof -
  from analyze_loop_all_zero[OF assms, of "[]"] obtain scores where sc:
    "snd (analyze_loop L M inp ans taxonomy []) = Inr scores"
    "\<forall>x \<in> set scores. snd x = 0"
    "scores = [] \<longleftrightarrow> taxonomy = []"
    "scores \<noteq> [] \<longrightarrow> fst (hd scores) = fst (hd taxonomy)"
    by auto
  show ?thesis
  proof (cases scores)
    case Nil
    then show ?thesis using sc(1,3)
      by (simp add: analyze_relationship_type_def bind_run_Inr)
  next
    case (Cons b bs)
    have "max_by snd b bs = b" using sc(2) Cons by (intro max_by_all_zero) auto
    moreover have "b = (fst (hd taxonomy), 0)"
      using sc(2,4) Cons by (cases b) auto
    ultimately show ?thesis using sc(1,3) Cons
      by (simp add: analyze_relationship_type_def bind_run_Inr)
  qed
qed

text \<open>
  An instance of C5: the second and third entries tie at 0.7 and the second is returned.
\<close>

theorem analyze_selects_first_maximum_witness:
  "snd (analyze_relationship_type latin1_lib (table_models 0 sample_table) (ascii ''rain'')
          (ascii ''flood'') sample_taxonomy) = Inr (ascii ''part'', 0.7)
   \<and> sample_taxonomy \<noteq> []
   \<and> distinct (map fst sample_taxonomy)
   \<and> fst (sample_taxonomy ! 1) = ascii ''part''
   \<and> entry_scores latin1_lib (table_models 0 sample_table) (ascii ''rain'') (ascii ''flood'')
         sample_taxonomy = [Inr 0.5, Inr 0.7, Inr 0.7]"
proof -
  have h1: "snd (analyze_relationship_type latin1_lib (table_models 0 sample_table)
                   (ascii ''rain'') (ascii ''flood'') sample_taxonomy) = Inr (ascii ''part'', 0.7)"
    by (simp add: analyze_relationship_type_def run_simps table_models_def sample_table_def
        sample_taxonomy_def latin1_lib_def ascii_def)
  have h2: "sample_taxonomy \<noteq> []"
    by (simp add: sample_taxonomy_def)
  have h3: "distinct (map fst sample_taxonomy)"
    by (simp add: sample_taxonomy_def ascii_def)
  have h4: "fst (sample_taxonomy ! 1) = ascii ''part''"
    by (simp add: sample_taxonomy_def)
  have h5: "entry_scores latin1_lib (table_models 0 sample_table) (ascii ''rain'')
              (ascii ''flood'') sample_taxonomy = [Inr 0.5, Inr 0.7, Inr 0.7]"
    by (simp add: run_simps table_models_def sample_table_def sample_taxonomy_def
        latin1_lib_def ascii_def)
  from analyze_selects_first_maximum[OF h1 h2 h3] show ?thesis
    using h1 h2 h3 h4 h5 by blast
qed

text \<open>
  An instance of the amended C1: the classifier raises on every hypothesis, every entry
  scores 0, and the first entry of the taxonomy is returned with confidence 0.
\<close>

theorem analyze_all_zero_witness:
  "entry_scores latin1_lib failing_models (ascii ''rain'') (ascii ''flood'') sample_taxonomy
     = [Inr 0, Inr 0, Inr 0]
   \<and> snd (analyze_relationship_type latin1_lib failing_models (ascii ''rain'') (ascii ''flood'')
            sample_taxonomy) = Inr (ascii ''cause'', 0)"
proof -
  have h: "\<forall>e \<in> set sample_taxonomy.
       snd (entry_score latin1_lib failing_models (ascii ''rain'') (ascii ''flood'') (snd e))
         = Inr 0"
    by (simp add: run_simps failing_models_def sample_taxonomy_def latin1_lib_def)
  have s: "entry_scores latin1_lib failing_models (ascii ''rain'') (ascii ''flood'')
             sample_taxonomy = [Inr 0, Inr 0, Inr 0]"
    by (simp add: run_simps failing_models_def sample_taxonomy_def latin1_lib_def)
  from analyze_all_zero[OF h] show ?thesis
    using s by (simp add: sample_taxonomy_def)
qed

text \<open>
  C1 as stated fails: with the configured taxonomy and a classifier that labels every
  hypothesis \<open>neutral\<close>, every per-entry score is 0, yet the result is the first
  configured type name and not the fallback.
\<close>

theorem analyze_all_zero_not_general:
  "entry_scores latin1_lib neutral_models (ascii ''rain'') (ascii ''flood'')
       RELATIONSHIP_ANALYSIS_TEMPLATES
     = [Inr 0, Inr 0, Inr 0, Inr 0, Inr 0, Inr 0, Inr 0, Inr 0, Inr 0, Inr 0]
   \<and> snd (analyze_relationship_type latin1_lib neutral_models (ascii ''rain'') (ascii ''flood'')
            RELATIONSHIP_ANALYSIS_TEMPLATES) = Inr ([0xC0C1, 0xD669, 0xBC1C, 0xC0DD], 0)
   \<and> [0xC0C1, 0xD669, 0xBC1C, 0xC0DD] \<noteq> general"
  by (simp add: analyze_relationship_type_def run_simps neutral_models_def
      RELATIONSHIP_ANALYSIS_TEMPLATES_def latin1_lib_def general_def)

section \<open>Properties of the floating-point arithmetic\<close>

subsection \<open>Nearest integer, ties to even\<close>

lemma round_half_even_bounds:
  "\<lfloor>x\<rfloor> \<le> round_half_even x \<and> round_half_even x \<le> \<lfloor>x\<rfloor> + 1"
  by (simp add: round_half_even_def Let_def)

lemma round_half_even_of_int: "round_half_even (of_int k) = k"
  by (simp add: round_half_even_def Let_def)

lemma round_half_even_numeral: "round_half_even (numeral k) = numeral k"
  using round_half_even_of_int[of "numeral k"] by simp

lemma round_half_even_mono:
  assumes "x \<le> y"
  shows "round_half_even x \<le> round_half_even y"
proof (cases "\<lfloor>x\<rfloor> = \<lfloor>y\<rfloor>")
  case True
  have "x - of_int \<lfloor>y\<rfloor> \<le> y - of_int \<lfloor>y\<rfloor>" using assms by simp
  then show ?thesis
    using True by (auto simp: round_half_even_def Let_def)
next
  case False
  have "\<lfloor>x\<rfloor> \<le> \<lfloor>y\<rfloor>" using assms by (rule floor_mono)
  then have "\<lfloor>x\<rfloor> + 1 \<le> \<lfloor>y\<rfloor>" using False by simp
  then show ?thesis
    using round_half_even_bounds[of x] round_half_even_bounds[of y] by linarith
qed

lemma round_half_even_nearest: "\<bar>of_int (round_half_even x) - x\<bar> \<le> 1 / 2"
proof -
  have "of_int \<lfloor>x\<rfloor> \<le> x" "x < of_int \<lfloor>x\<rfloor> + 1"
    using floor_correct[of x] by simp_all
  then show ?thesis
    by (auto simp: round_half_even_def Let_def abs_le_iff)
qed

lemma round_half_even_tie:
  "round_half_even (of_int k + 1 / 2) = (if even k then k else k + 1)"
proof -
  have "\<lfloor>(of_int k :: rat) + 1 / 2\<rfloor> = k" by (simp add: floor_unique)
  then show ?thesis by (simp add: round_half_even_def Let_def)
qed

subsection \<open>Binary exponent\<close>

lemma powi_nat: "0 \<le> e \<Longrightarrow> (2::rat) powi e = 2 ^ nat e"
  by (simp add: power_int_def)

lemma powi_neg: "0 \<le> e \<Longrightarrow> (2::rat) powi (- e) = 1 / 2 ^ nat e"
  by (simp add: power_int_minus powi_nat divide_simps)

lemma powi_less_cancel: "(2::rat) powi a < 2 powi b \<Longrightarrow> a < b"
  by (metis linorder_not_less one_le_numeral power_int_increasing)

lemma bitlen_pos: "0 < n \<Longrightarrow> 1 \<le> bitlen n"
  by (auto simp: bitlen_alt_def)

lemma ilog2_bounds_ge1:
  assumes "1 \<le> x"
  shows "2 powi (ilog2 x) \<le> x \<and> x < 2 powi (ilog2 x + 1)"
proof -
  let ?n = "\<lfloor>x\<rfloor>"
  have n: "0 < ?n" using assms by simp
  have e: "ilog2 x = bitlen ?n - 1" using assms by (simp add: ilog2_def)
  have b: "1 \<le> bitlen ?n" using n by (rule bitlen_pos)
  from bitlen_bounds[OF n] have lo: "2 ^ nat (bitlen ?n - 1) \<le> ?n" and hi: "?n < 2 ^ nat (bitlen ?n)"
    by auto
  have "(2::rat) ^ nat (bitlen ?n - 1) = of_int (2 ^ nat (bitlen ?n - 1))" by simp
  also have "\<dots> \<le> of_int ?n" using lo by (simp only: of_int_le_iff)
  also have "\<dots> \<le> x" by simp
  finally have 1: "2 powi (ilog2 x) \<le> x" using b by (simp add: e powi_nat)
  have "?n + 1 \<le> 2 ^ nat (bitlen ?n)" using hi by simp
  then have "(of_int (?n + 1) :: rat) \<le> of_int (2 ^ nat (bitlen ?n))" by (simp only: of_int_le_iff)
  moreover have "x < of_int (?n + 1)" using floor_correct[of x] by simp
  ultimately have "x < of_int (2 ^ nat (bitlen ?n))" by linarith
  then have 2: "x < 2 powi (ilog2 x + 1)" using b by (simp add: e powi_nat)
  show ?thesis using 1 2 by simp
qed

lemma ilog2_bounds_lt1:
  assumes "0 < x" "x < 1"
  shows "2 powi (ilog2 x) \<le> x \<and> x < 2 powi (ilog2 x + 1)"
proof -
  let ?y = "1 / x"
  let ?m = "\<lceil>?y\<rceil> - 1"
  have y: "1 < ?y" using assms by simp
  have m: "0 < ?m" using y by (simp add: less_ceiling_iff)
  have e: "ilog2 x = - bitlen ?m" using assms by (simp add: ilog2_def)
  have b: "1 \<le> bitlen ?m" using m by (rule bitlen_pos)
  from bitlen_bounds[OF m] have lo: "2 ^ nat (bitlen ?m - 1) \<le> ?m" and hi: "?m < 2 ^ nat (bitlen ?m)"
    by auto
  have my: "of_int ?m < ?y" by (simp add: ceiling_correct[THEN conjunct1] less_ceiling_iff[symmetric])
  have ym: "?y \<le> of_int (?m + 1)" by (simp add: le_of_int_ceiling)
  have "?m + 1 \<le> 2 ^ nat (bitlen ?m)" using hi by simp
  then have "(of_int (?m + 1) :: rat) \<le> of_int (2 ^ nat (bitlen ?m))" by (simp only: of_int_le_iff)
  then have "?y \<le> of_int (2 ^ nat (bitlen ?m))" using ym by linarith
  then have yle: "?y \<le> 2 ^ nat (bitlen ?m)" by simp
  have "(of_int (2 ^ nat (bitlen ?m - 1)) :: rat) \<le> of_int ?m" using lo by (simp only: of_int_le_iff)
  then have "of_int (2 ^ nat (bitlen ?m - 1)) < ?y" using my by linarith
  then have ygt: "2 ^ nat (bitlen ?m - 1) < ?y" by simp
  have 1: "2 powi (ilog2 x) \<le> x"
  proof -
    have "1 / 2 ^ nat (bitlen ?m) \<le> x"
      using yle assms(1) by (simp add: field_simps)
    then show ?thesis using b by (simp add: e powi_neg)
  qed
  have 2: "x < 2 powi (ilog2 x + 1)"
  proof -
    have "x < 1 / 2 ^ nat (bitlen ?m - 1)"
      using ygt assms(1) by (simp add: field_simps)
    moreover have "ilog2 x + 1 = - (bitlen ?m - 1)" by (simp add: e)
    moreover have "(2::rat) powi (- (bitlen ?m - 1)) = 1 / 2 ^ nat (bitlen ?m - 1)"
      using b by (intro powi_neg) simp
    ultimately show ?thesis by (simp only:)
  qed
  show ?thesis using 1 2 by simp
qed

text \<open>\<open>ilog2 x\<close> is the integer \<open>e\<close> with \<open>2^e \<le> x < 2^(e+1)\<close>.\<close>

lemma ilog2_bounds:
  "0 < x \<Longrightarrow> 2 powi (ilog2 x) \<le> x \<and> x < 2 powi (ilog2 x + 1)"
  using ilog2_bounds_ge1[of x] ilog2_bounds_lt1[of x] by (cases "1 \<le> x") auto

lemma ilog2_ge:
  assumes "0 < y" "2 powi k \<le> y"
  shows "k \<le> ilog2 y"
proof -
  have "y < 2 powi (ilog2 y + 1)" using ilog2_bounds[OF assms(1)] by simp
  then have "(2::rat) powi k < 2 powi (ilog2 y + 1)" using assms(2) by linarith
  then have "k < ilog2 y + 1" by (rule powi_less_cancel)
  then show ?thesis by simp
qed

lemma ilog2_le:
  assumes "0 < y" "y < 2 powi (k + 1)"
  shows "ilog2 y \<le> k"
proof -
  have "2 powi (ilog2 y) \<le> y" using ilog2_bounds[OF assms(1)] by simp
  then have "(2::rat) powi (ilog2 y) < 2 powi (k + 1)" using assms(2) by linarith
  then have "ilog2 y < k + 1" by (rule powi_less_cancel)
  then show ?thesis by simp
qed

lemma ilog2_mono:
  assumes "0 < x" "x \<le> y"
  shows "ilog2 x \<le> ilog2 y"
proof -
  have "2 powi (ilog2 x) \<le> x" using ilog2_bounds[OF assms(1)] by simp
  moreover have "y < 2 powi (ilog2 y + 1)" using ilog2_bounds[of y] assms by simp
  ultimately have "(2::rat) powi (ilog2 x) < 2 powi (ilog2 y + 1)" using assms(2) by linarith
  then have "ilog2 x < ilog2 y + 1" by (rule powi_less_cancel)
  then show ?thesis by simp
qed

lemma double_exponent_mono: "0 < x \<Longrightarrow> x \<le> y \<Longrightarrow> double_exponent x \<le> double_exponent y"
  using ilog2_mono[of x y] by (simp add: double_exponent_def)

subsection \<open>Rounding to a double\<close>

lemma round_magnitude_alt:
  "round_magnitude x =
     of_int (round_half_even (x / 2 powi (double_exponent x - 52))) * 2 powi (double_exponent x - 52)"
  by (simp add: round_magnitude_def Let_def)

lemma quantum_pos: "0 < (2::rat) powi e"
  by simp

lemma quantum_scale: "(2::rat) powi e = 2 ^ 52 * 2 powi (e - 52)"
  by (simp add: power_int_diff)

lemma quantum_scale_Suc: "(2::rat) powi (e + 1) = 2 ^ 53 * 2 powi (e - 52)"
  by (simp add: power_int_diff power_int_add)

text \<open>
  The significand of the rounded number has at most 53 binary digits, and exactly 53
  unless the number is subnormal.
\<close>

lemma significand_bounds:
  assumes "0 < x"
  shows "0 \<le> round_half_even (x / 2 powi (double_exponent x - 52))"
    and "round_half_even (x / 2 powi (double_exponent x - 52)) \<le> 2 ^ 53"
    and "- 1022 < double_exponent x \<Longrightarrow>
           2 ^ 52 \<le> round_half_even (x / 2 powi (double_exponent x - 52))"
proof -
  let ?e = "double_exponent x" let ?q = "(2::rat) powi (?e - 52)"
  have "0 \<le> x / ?q" using assms by simp
  then have "0 \<le> \<lfloor>x / ?q\<rfloor>" by simp
  then show "0 \<le> round_half_even (x / ?q)"
    using round_half_even_bounds[of "x / ?q"] by linarith
  have "ilog2 x + 1 \<le> ?e + 1" by (simp add: double_exponent_def)
  then have "(2::rat) powi (ilog2 x + 1) \<le> 2 powi (?e + 1)"
    by (intro power_int_increasing) simp_all
  then have "x \<le> 2 powi (?e + 1)" using ilog2_bounds[OF assms] by linarith
  then have "x \<le> 2 ^ 53 * ?q" by (simp only: quantum_scale_Suc)
  then have "x / ?q \<le> 2 ^ 53" by (simp add: field_simps)
  then have "round_half_even (x / ?q) \<le> round_half_even (of_int (2 ^ 53))"
    by (intro round_half_even_mono) simp
  then show "round_half_even (x / ?q) \<le> 2 ^ 53"
    by (simp only: round_half_even_of_int)
  show "2 ^ 52 \<le> round_half_even (x / ?q)" if "- 1022 < ?e"
  proof -
    have e: "?e = ilog2 x" using that by (simp add: double_exponent_def max_def split: if_splits)
    have "2 powi ?e \<le> x" using ilog2_bounds[OF assms] by (simp add: e)
    then have "2 ^ 52 * ?q \<le> x" by (simp only: quantum_scale[symmetric])
    then have "2 ^ 52 \<le> x / ?q" by (simp add: field_simps)
    then have "round_half_even (of_int (2 ^ 52)) \<le> round_half_even (x / ?q)"
      by (intro round_half_even_mono) simp
    then show ?thesis by (simp only: round_half_even_of_int)
  qed
qed

lemma round_magnitude_upper:
  assumes "0 < x"
  shows "round_magnitude x \<le> 2 powi (double_exponent x + 1)"
proof -
  let ?q = "(2::rat) powi (double_exponent x - 52)"
  have "round_half_even (x / ?q) \<le> 2 ^ 53" by (rule significand_bounds(2)[OF assms])
  then have "(of_int (round_half_even (x / ?q)) :: rat) \<le> of_int (2 ^ 53)"
    by (simp only: of_int_le_iff)
  then have "of_int (round_half_even (x / ?q)) * ?q \<le> of_int (2 ^ 53) * ?q"
    by (intro mult_right_mono) simp_all
  then show ?thesis
    by (simp add: round_magnitude_alt quantum_scale_Suc)
qed

lemma round_magnitude_lower:
  assumes "0 < x" "- 1022 < double_exponent x"
  shows "2 powi (double_exponent x) \<le> round_magnitude x"
proof -
  let ?q = "(2::rat) powi (double_exponent x - 52)"
  have "2 ^ 52 \<le> round_half_even (x / ?q)" by (rule significand_bounds(3)[OF assms])
  then have "(of_int (2 ^ 52) :: rat) \<le> of_int (round_half_even (x / ?q))"
    by (simp only: of_int_le_iff)
  then have "of_int (2 ^ 52) * ?q \<le> of_int (round_half_even (x / ?q)) * ?q"
    by (intro mult_right_mono) simp_all
  then show ?thesis
    using quantum_scale[of "double_exponent x"] by (simp add: round_magnitude_alt)
qed

lemma round_magnitude_nonneg: "0 \<le> x \<Longrightarrow> 0 \<le> round_magnitude x"
proof -
  assume "0 \<le> x"
  then have "0 \<le> x / 2 powi (double_exponent x - 52)" by simp
  then have "0 \<le> \<lfloor>x / 2 powi (double_exponent x - 52)\<rfloor>" by simp
  then have "0 \<le> round_half_even (x / 2 powi (double_exponent x - 52))"
    using round_half_even_bounds[of "x / 2 powi (double_exponent x - 52)"] by linarith
  then show ?thesis by (simp add: round_magnitude_alt)
qed

text \<open>Rounding to a double is monotone and keeps the sign.\<close>

lemma round_magnitude_mono:
  assumes "0 < x" "x \<le> y"
  shows "round_magnitude x \<le> round_magnitude y"
proof (cases "double_exponent x = double_exponent y")
  case True
  let ?q = "(2::rat) powi (double_exponent y - 52)"
  have "x / ?q \<le> y / ?q" using assms(2) by (simp add: divide_right_mono)
  then have "round_half_even (x / ?q) \<le> round_half_even (y / ?q)"
    by (rule round_half_even_mono)
  then have "(of_int (round_half_even (x / ?q)) :: rat) \<le> of_int (round_half_even (y / ?q))"
    by (simp only: of_int_le_iff)
  then have "of_int (round_half_even (x / ?q)) * ?q \<le> of_int (round_half_even (y / ?q)) * ?q"
    by (intro mult_right_mono) simp_all
  then show ?thesis by (simp add: round_magnitude_alt True)
next
  case False
  have y: "0 < y" using assms by simp
  have lt: "double_exponent x < double_exponent y"
    using double_exponent_mono[OF assms] False by simp
  have "- 1022 \<le> double_exponent x" by (simp add: double_exponent_def)
  then have "- 1022 < double_exponent y" using lt by simp
  then have "2 powi (double_exponent y) \<le> round_magnitude y"
    by (rule round_magnitude_lower[OF y])
  moreover have "(2::rat) powi (double_exponent x + 1) \<le> 2 powi (double_exponent y)"
    using lt by (intro power_int_increasing) simp_all
  ultimately show ?thesis
    using round_magnitude_upper[OF assms(1)] by linarith
qed

lemma to_double_nonneg: "0 \<le> x \<Longrightarrow> 0 \<le> to_double x"
  using round_magnitude_nonneg[of x] by (simp add: to_double_def sgn_if)

lemma to_double_nonpos: "x \<le> 0 \<Longrightarrow> to_double x \<le> 0"
  using round_magnitude_nonneg[of "- x"] by (simp add: to_double_def sgn_if)

lemma to_double_mono:
  assumes "x \<le> y"
  shows "to_double x \<le> to_double y"
proof -
  consider "0 < x" | "y < 0" | "x \<le> 0" "0 \<le> y" by linarith
  then show ?thesis
  proof cases
    case 1
    then show ?thesis
      using round_magnitude_mono[of x y] assms by (simp add: to_double_def sgn_if)
  next
    case 2
    then have "round_magnitude (- y) \<le> round_magnitude (- x)"
      using assms by (intro round_magnitude_mono) simp_all
    then show ?thesis
      using 2 assms by (simp add: to_double_def sgn_if)
  next
    case 3
    then show ?thesis
      using to_double_nonneg[of y] to_double_nonpos[of x] by linarith
  qed
qed

text \<open>A double is rounded to itself.\<close>

lemma round_magnitude_idem:
  assumes "0 < x" "0 < round_magnitude x"
  shows "round_magnitude (round_magnitude x) = round_magnitude x"
proof -
  let ?e = "double_exponent x" let ?q = "(2::rat) powi (?e - 52)"
  let ?m = "round_half_even (x / ?q)" let ?y = "round_magnitude x"
  have y: "?y = of_int ?m * ?q" by (rule round_magnitude_alt)
  have e: "- 1022 \<le> ?e" by (simp add: double_exponent_def)
  have m53: "?m \<le> 2 ^ 53" by (rule significand_bounds(2)[OF assms(1)])
  have mpos: "0 < ?m"
  proof (rule ccontr)
    assume "\<not> 0 < ?m"
    then have "?m = 0" using significand_bounds(1)[OF assms(1)] by simp
    then show False using assms(2) y by simp
  qed
  show ?thesis
  proof (cases "?m = 2 ^ 53")
    case True
    have y2: "?y = 2 powi (?e + 1)" by (simp add: y True quantum_scale_Suc)
    have "?e + 1 \<le> ilog2 ?y" using assms(2) by (rule ilog2_ge) (simp add: y2)
    moreover have "ilog2 ?y \<le> ?e + 1"
      using assms(2) by (rule ilog2_le) (simp add: y2 power_int_add)
    ultimately have "ilog2 ?y = ?e + 1" by simp
    then have e2: "double_exponent ?y = ?e + 1" using e by (simp add: double_exponent_def)
    have "?y / 2 powi (double_exponent ?y - 52) = of_int (2 ^ 52)"
      unfolding e2 by (simp add: y2 power_int_diff power_int_add)
    then have "round_magnitude ?y = of_int (2 ^ 52) * 2 powi (?e + 1 - 52)"
      unfolding round_magnitude_alt[of ?y] e2 by (simp only: round_half_even_of_int)
    also have "\<dots> = ?y" by (simp add: y2 power_int_diff power_int_add)
    finally show ?thesis .
  next
    case False
    then have mlt: "?m < 2 ^ 53" using m53 by simp
    then have "(of_int ?m :: rat) < of_int (2 ^ 53)" by (simp only: of_int_less_iff)
    then have "of_int ?m * ?q < of_int (2 ^ 53) * ?q" by (intro mult_strict_right_mono) simp_all
    then have yhi: "?y < 2 powi (?e + 1)" by (simp add: y quantum_scale_Suc)
    have e2: "double_exponent ?y = ?e"
    proof (cases "- 1022 < ?e")
      case True
      have "2 ^ 52 \<le> ?m" by (rule significand_bounds(3)[OF assms(1) True])
      then have "(of_int (2 ^ 52) :: rat) \<le> of_int ?m" by (simp only: of_int_le_iff)
      then have "of_int (2 ^ 52) * ?q \<le> of_int ?m * ?q" by (intro mult_right_mono) simp_all
      then have "2 powi ?e \<le> ?y"
        using quantum_scale[of ?e] by (simp add: y)
      then have "?e \<le> ilog2 ?y" by (rule ilog2_ge[OF assms(2)])
      moreover have "ilog2 ?y \<le> ?e" using assms(2) yhi by (rule ilog2_le)
      ultimately show ?thesis using True by (simp add: double_exponent_def)
    next
      case False
      then have "?e = - 1022" using e by simp
      moreover have "ilog2 ?y \<le> ?e" using assms(2) yhi by (rule ilog2_le)
      ultimately show ?thesis by (simp add: double_exponent_def)
    qed
    have "?y / 2 powi (double_exponent ?y - 52) = of_int ?m"
      unfolding e2 by (simp add: y)
    then have "round_magnitude ?y = of_int ?m * ?q"
      unfolding round_magnitude_alt[of ?y] e2 by (simp only: round_half_even_of_int)
    then show ?thesis by (simp only: y)
  qed
qed

lemma to_double_idem: "to_double (to_double x) = to_double x"
proof -
  have pos: "to_double (round_magnitude z) = round_magnitude z" if "0 < z" for z
  proof (cases "round_magnitude z = 0")
    case True
    then show ?thesis by (simp add: to_double_def)
  next
    case False
    then have "0 < round_magnitude z"
      using round_magnitude_nonneg[of z] that by simp
    then show ?thesis
      using round_magnitude_idem[OF that] by (simp add: to_double_def sgn_if)
  qed
  have neg: "to_double (- y) = - to_double y" for y
    by (simp add: to_double_def sgn_if)
  consider "x = 0" | "0 < x" | "x < 0" by linarith
  then show ?thesis
  proof cases
    case 1
    then show ?thesis by (simp add: to_double_def)
  next
    case 2
    then have "to_double x = round_magnitude x" by (simp add: to_double_def sgn_if)
    then show ?thesis using pos[OF 2] by simp
  next
    case 3
    then have "to_double x = - round_magnitude (- x)" by (simp add: to_double_def sgn_if)
    then show ?thesis using pos[of "- x"] 3 by (simp add: neg)
  qed
qed

text \<open>The rounding error is at most half the spacing.\<close>

lemma to_double_nearest:
  "\<bar>to_double x - x\<bar> \<le> 2 powi (double_exponent \<bar>x\<bar> - 53)"
proof (cases "x = 0")
  case True
  then show ?thesis by (simp add: to_double_def)
next
  case False
  let ?a = "\<bar>x\<bar>" let ?q = "(2::rat) powi (double_exponent ?a - 52)"
  have "\<bar>of_int (round_half_even (?a / ?q)) - ?a / ?q\<bar> \<le> 1 / 2"
    by (rule round_half_even_nearest)
  then have "\<bar>of_int (round_half_even (?a / ?q)) - ?a / ?q\<bar> * ?q \<le> 1 / 2 * ?q"
    by (intro mult_right_mono) simp_all
  moreover have "\<bar>of_int (round_half_even (?a / ?q)) - ?a / ?q\<bar> * ?q
      = \<bar>round_magnitude ?a - ?a\<bar>"
  proof -
    have "\<bar>of_int (round_half_even (?a / ?q)) - ?a / ?q\<bar> * ?q
        = \<bar>(of_int (round_half_even (?a / ?q)) - ?a / ?q) * ?q\<bar>"
      by (simp add: abs_mult)
    also have "(of_int (round_half_even (?a / ?q)) - ?a / ?q) * ?q = round_magnitude ?a - ?a"
      by (simp add: round_magnitude_alt left_diff_distrib)
    finally show ?thesis .
  qed
  moreover have "1 / 2 * ?q = 2 powi (double_exponent ?a - 53)"
    by (simp add: power_int_diff)
  moreover have "\<bar>to_double x - x\<bar> = \<bar>round_magnitude ?a - ?a\<bar>"
    using False by (simp add: to_double_def sgn_if abs_if)
  ultimately show ?thesis by simp
qed

subsection \<open>Operations and \<open>round\<close>\<close>

text \<open>The float operations are monotone.\<close>

lemma fmul_mono:
  assumes "x \<le> y" "0 \<le> k"
  shows "fmul x k \<le> fmul y k"
  unfolding fmul_def
  by (intro to_double_mono mult_right_mono to_double_nonneg assms)

lemma fsub_antimono:
  assumes "x \<le> y"
  shows "fsub w y \<le> fsub w x"
  unfolding fsub_def
  by (intro to_double_mono diff_left_mono assms)

lemma py_round_mono:
  assumes "x \<le> y"
  shows "py_round x n \<le> py_round y n"
proof -
  have "to_double x * 10 ^ n \<le> to_double y * 10 ^ n"
    using to_double_mono[OF assms] by simp
  then have "round_half_even (to_double x * 10 ^ n) \<le> round_half_even (to_double y * 10 ^ n)"
    by (rule round_half_even_mono)
  then have "(of_int (round_half_even (to_double x * 10 ^ n)) :: rat)
      \<le> of_int (round_half_even (to_double y * 10 ^ n))"
    by (simp only: of_int_le_iff)
  then show ?thesis
    unfolding py_round_def by (rule divide_right_mono) simp
qed

text \<open>
  \<open>round\<close> returns a multiple of \<open>10^-ndigits\<close> nearest to the double it is
  given.
\<close>

lemma py_round_nearest:
  "\<bar>py_round x n - to_double x\<bar> \<le> 1 / (2 * 10 ^ n)"
proof -
  let ?t = "to_double x * 10 ^ n"
  have "\<bar>of_int (round_half_even ?t) - ?t\<bar> \<le> 1 / 2" by (rule round_half_even_nearest)
  then have "\<bar>of_int (round_half_even ?t) - ?t\<bar> / 10 ^ n \<le> 1 / 2 / 10 ^ n"
    by (intro divide_right_mono) simp_all
  moreover have "\<bar>of_int (round_half_even ?t) - ?t\<bar> / 10 ^ n = \<bar>py_round x n - to_double x\<bar>"
  proof -
    have "py_round x n - to_double x = (of_int (round_half_even ?t) - ?t) / 10 ^ n"
      by (simp add: py_round_def diff_divide_distrib)
    then show ?thesis by (simp add: abs_divide)
  qed
  ultimately show ?thesis by simp
qed

lemma py_round_decimal: "py_round x n * 10 ^ n = of_int (round_half_even (to_double x * 10 ^ n))"
  by (simp add: py_round_def)

subsection \<open>Evaluation\<close>

text \<open>Rules that evaluate the float operations on numerals.\<close>

lemma floor_rat_numeral: "\<lfloor>(numeral a :: rat) / numeral b\<rfloor> = numeral a div numeral b"
  using floor_divide_of_int_eq[of "numeral a" "numeral b", where ?'a = rat] by simp

lemma floor_rat_neg_numeral:
  "\<lfloor>- ((numeral a :: rat) / numeral b)\<rfloor> = - numeral a div numeral b"
  using floor_divide_of_int_eq[of "- numeral a" "numeral b", where ?'a = rat] by simp

lemma ceiling_rat_numeral:
  "\<lceil>(numeral a :: rat) / numeral b\<rceil> = - (- numeral a div numeral b)"
  unfolding ceiling_def
  using floor_divide_of_int_eq[of "- numeral a" "numeral b", where ?'a = rat] by simp

lemma floorlog_numeral: "floorlog 2 (numeral n) = floorlog 2 (numeral n div 2) + 1"
  by (subst compute_floorlog) simp

lemma floorlog_0: "floorlog 2 0 = 0"
  by (simp add: floorlog_def)

lemma floorlog_1: "floorlog 2 (Suc 0) = 1"
  by (subst compute_floorlog) (simp add: floorlog_def)

lemmas float_eval = to_double_def round_magnitude_def double_exponent_def ilog2_def
  round_half_even_def Let_def bitlen_def floorlog_numeral floorlog_0 floorlog_1
  floor_rat_numeral floor_rat_neg_numeral ceiling_rat_numeral power_int_minus
  fadd_def fsub_def fmul_def truediv_def py_round_def

text \<open>
  The double nearest to \<open>0.1\<close>; numbers with a short binary expansion are doubles;
  a number half-way between two doubles goes to the one with the even significand.
\<close>

lemma to_double_tenth: "to_double 0.1 = 3602879701896397 / 36028797018963968"
  by (simp add: float_eval)

lemma to_double_dyadic: "to_double 0.375 = 0.375 \<and> to_double 100 = 100 \<and> to_double (- 2.5) = - 2.5"
  by (simp add: float_eval)

lemma to_double_tie:
  "to_double (1 + 1 / 2 ^ 53) = 1 \<and> to_double (1 + 3 / 2 ^ 53) = 1 + 1 / 2 ^ 51"
  by (simp add: float_eval)

text \<open>
  \<open>round\<close> acts on the double: \<open>0.12345\<close> and \<open>2.675\<close> are not doubles, the
  doubles nearest to them lie above and below the decimal tie. \<open>0.125\<close>,
  \<open>0.375\<close>, \<open>0.03125\<close> and \<open>0.09375\<close> are doubles and exact ties.
\<close>

lemma py_round_above_tie: "py_round 0.12345 4 = 0.1235 \<and> py_round 2.675 2 = 2.67"
  by (simp add: float_eval)

lemma py_round_ties:
  "py_round 0.125 2 = 0.12 \<and> py_round 0.375 2 = 0.38
   \<and> py_round 0.03125 4 = 0.0312 \<and> py_round 0.09375 4 = 0.0938"
  by (simp add: float_eval)

lemma py_round_sides:
  "py_round 0.1234 2 = 0.12 \<and> py_round 0.1288 2 = 0.13 \<and> py_round (- 0.126) 2 = - 0.13"
  by (simp add: float_eval)

section \<open>Properties of the formative scorer\<close>

lemma edit_distance_Nil2 [simp]: "edit_distance xs [] = length xs"
  by (cases xs) simp_all

lemma edit_distance_sym: "edit_distance xs ys = edit_distance ys xs"
  by (induction xs ys rule: edit_distance.induct) (simp_all add: min.commute min.left_commute eq_commute)

lemma rev_take_Suc: "i < length xs \<Longrightarrow> rev (take (Suc i) xs) = xs ! i # rev (take i xs)"
  by (simp add: take_Suc_conv_app_nth)

lemma levenshtein_row_prefix:
  assumes i: "i < length s1" and k: "k \<le> length s2"
    and prev: "previous_row =
      map (\<lambda>j. edit_distance (rev (take i s1)) (rev (take j s2))) [0..<length s2 + 1]"
  shows "foldl (\<lambda>current_row j.
              let insertions = previous_row ! (j + 1) + 1;
                  deletions = current_row ! j + 1;
                  substitutions = previous_row ! j + (if s1 ! i \<noteq> s2 ! j then 1 else 0)
              in current_row @ [min insertions (min deletions substitutions)])
       [i + 1] [0..<k]
     = map (\<lambda>j. edit_distance (rev (take (Suc i) s1)) (rev (take j s2))) [0..<k + 1]"
  using k
proof (induction k)
  case 0
  then show ?case using i by simp
next
  case (Suc k)
  then have k: "k < length s2" by simp
  have p1: "previous_row ! (k + 1) = edit_distance (rev (take i s1)) (rev (take (Suc k) s2))"
    using k by (simp add: prev nth_map_upt del: upt_Suc)
  have p0: "previous_row ! k = edit_distance (rev (take i s1)) (rev (take k s2))"
    using k by (simp add: prev nth_map_upt del: upt_Suc)
  let ?g = "\<lambda>j. edit_distance (rev (take (Suc i) s1)) (rev (take j s2))"
  have c: "map ?g [0..<k + 1] ! k = ?g k"
    by (simp add: nth_map_upt del: upt_Suc)
  have g: "?g (Suc k) =
      min (edit_distance (rev (take i s1)) (rev (take (Suc k) s2)) + 1)
        (min (?g k + 1)
           (edit_distance (rev (take i s1)) (rev (take k s2)) + (if s1 ! i \<noteq> s2 ! k then 1 else 0)))"
    by (simp only: rev_take_Suc[OF i] rev_take_Suc[OF k] edit_distance.simps)
  let ?f = "\<lambda>current_row j.
              let insertions = previous_row ! (j + 1) + 1;
                  deletions = current_row ! j + 1;
                  substitutions = previous_row ! j + (if s1 ! i \<noteq> s2 ! j then 1 else 0)
              in current_row @ [min insertions (min deletions substitutions)]"
  have ih: "foldl ?f [i + 1] [0..<k] = map ?g [0..<k + 1]"
    using Suc.IH k by simp
  have "foldl ?f [i + 1] [0..<Suc k] = ?f (foldl ?f [i + 1] [0..<k]) k"
    by simp
  also have "\<dots> = ?f (map ?g [0..<k + 1]) k"
    by (simp only: ih)
  also have "\<dots> = map ?g [0..<k + 1] @ [?g (Suc k)]"
    by (simp only: Let_def c p1 p0 g)
  also have "\<dots> = map ?g [0..<Suc k + 1]"
    by simp
  finally show ?case .
qed


lemma levenshtein_row_step:
  assumes "i < length s1"
    and "previous_row =
      map (\<lambda>j. edit_distance (rev (take i s1)) (rev (take j s2))) [0..<length s2 + 1]"
  shows "levenshtein_row (s1 ! i) i s2 previous_row =
      map (\<lambda>j. edit_distance (rev (take (Suc i) s1)) (rev (take j s2))) [0..<length s2 + 1]"
  unfolding levenshtein_row_def
  by (rule levenshtein_row_prefix[OF assms(1) order_refl assms(2)])

lemma first_row:
  "[0..<length s2 + 1] =
     map (\<lambda>j. edit_distance (rev (take 0 s1)) (rev (take j s2))) [0..<length s2 + 1]"
  by (rule nth_equalityI) (simp_all add: nth_map_upt del: upt_Suc)

lemma levenshtein_rows_prefix:
  "k \<le> length s1 \<Longrightarrow>
     foldl (\<lambda>previous_row i. levenshtein_row (s1 ! i) i s2 previous_row)
       [0..<length s2 + 1] [0..<k]
     = map (\<lambda>j. edit_distance (rev (take k s1)) (rev (take j s2))) [0..<length s2 + 1]"
proof (induction k)
  case 0
  show ?case using first_row[of s2 s1] by simp
next
  case (Suc k)
  then have k: "k < length s1" by simp
  let ?f = "\<lambda>previous_row i. levenshtein_row (s1 ! i) i s2 previous_row"
  let ?R = "\<lambda>k. map (\<lambda>j. edit_distance (rev (take k s1)) (rev (take j s2))) [0..<length s2 + 1]"
  have ih: "foldl ?f [0..<length s2 + 1] [0..<k] = ?R k"
    using Suc.IH k by simp
  have "foldl ?f [0..<length s2 + 1] [0..<Suc k] = ?f (foldl ?f [0..<length s2 + 1] [0..<k]) k"
    by simp
  also have "\<dots> = levenshtein_row (s1 ! k) k s2 (?R k)"
    by (simp only: ih)
  also have "\<dots> = ?R (Suc k)"
    by (rule levenshtein_row_step[OF k refl])
  finally show ?case .
qed

lemma levenshtein_rows_last:
  "last (levenshtein_rows s1 s2) = edit_distance (rev s1) (rev s2)"
proof -
  have "levenshtein_rows s1 s2 =
      map (\<lambda>j. edit_distance (rev (take (length s1) s1)) (rev (take j s2))) [0..<length s2 + 1]"
    unfolding levenshtein_rows_def by (rule levenshtein_rows_prefix) simp
  then show ?thesis
    by (simp add: last_map del: upt_Suc)
qed

text \<open>
  The row-by-row computation of the source yields the edit distance of the reversed
  strings, with or without the swap of its first line.
\<close>

lemma levenshtein_distance_edit_distance:
  "levenshtein_distance s1 s2 = edit_distance (rev s1) (rev s2)"
proof (cases "length s1 < length s2")
  case True
  then have "levenshtein_distance s1 s2 = levenshtein_distance s2 s1"
    by (subst levenshtein_distance.simps) simp
  also have "\<dots> = edit_distance (rev s2) (rev s1)"
    using True by (subst levenshtein_distance.simps) (simp add: levenshtein_rows_last)
  finally show ?thesis
    by (simp add: edit_distance_sym)
next
  case False
  then show ?thesis
    by (subst levenshtein_distance.simps) (simp add: levenshtein_rows_last)
qed

lemma levenshtein_distance_sym:
  "levenshtein_distance s1 s2 = levenshtein_distance s2 s1"
  by (simp add: levenshtein_distance_edit_distance edit_distance_sym)

text \<open>
  C8. The formative similarity is symmetric in its two arguments.
\<close>

theorem formative_symmetric:
  "calculate_formative_similarity L a b = calculate_formative_similarity L b a"
proof -
  have "levenshtein_distance (h2j L a) (h2j L b) = levenshtein_distance (h2j L b) (h2j L a)"
    by (rule levenshtein_distance_sym)
  then show ?thesis
    by (simp add: calculate_formative_similarity_def Let_def max.commute)
qed

section \<open>Properties of the score fusion\<close>

lemma dict_item_Inr: "snd (dict_item d k) = Inr v \<longleftrightarrow> d k = Some v"
  by (simp add: dict_item_def returns_def raises_def split: option.splits)

text \<open>The composite of four signals under three weights, as the source computes it.\<close>

lemma fuse_scores_Inr:
  assumes "snd (fuse_scores weights s r f c) = Inr res"
  shows "\<exists>w_s w_r w_f. weights ''semantic'' = Some w_s \<and> weights ''relational'' = Some w_r
           \<and> weights ''formative'' = Some w_f
           \<and> similarity_score res =
               py_round
                 (fmul (max 0 (min 1 (fsub (fadd (fadd (fmul s w_s) (fmul r w_r)) (fmul f w_f))
                                        (fmul c 0.15))))
                    100) 2"
  using assms
  by (auto simp: fuse_scores_def bind_run_Inr dict_item_Inr Let_def)

lemma fuse_scores_value:
  assumes "weights ''semantic'' = Some w_s" "weights ''relational'' = Some w_r"
    "weights ''formative'' = Some w_f"
  shows "fuse_scores weights s r f c =
     returns
       \<lparr> similarity_score =
           py_round
             (fmul (max 0 (min 1 (fsub (fadd (fadd (fmul s w_s) (fmul r w_r)) (fmul f w_f))
                                    (fmul c 0.15))))
                100) 2,
         breakdown =
           [''semantic'' \<mapsto> py_round s 4, ''relational'' \<mapsto> py_round r 4,
            ''formative'' \<mapsto> py_round f 4, ''contradiction'' \<mapsto> py_round c 4] \<rparr>"
  using assms
  by (simp add: fuse_scores_def dict_item_def bind_run_def returns_def Let_def)

lemma fuse_scores_monotone:
  assumes "c1 \<le> c2"
    and "snd (fuse_scores weights s r f c1) = Inr res1"
    and "snd (fuse_scores weights s r f c2) = Inr res2"
  shows "similarity_score res2 \<le> similarity_score res1"
proof -
  from fuse_scores_Inr[OF assms(2)] fuse_scores_Inr[OF assms(3)]
  obtain w_s w_r w_f where
    r1: "similarity_score res1 =
           py_round
             (fmul (max 0 (min 1 (fsub (fadd (fadd (fmul s w_s) (fmul r w_r)) (fmul f w_f))
                                    (fmul c1 0.15))))
                100) 2"
    and r2: "similarity_score res2 =
           py_round
             (fmul (max 0 (min 1 (fsub (fadd (fadd (fmul s w_s) (fmul r w_r)) (fmul f w_f))
                                    (fmul c2 0.15))))
                100) 2"
    by auto
  let ?w = "fadd (fadd (fmul s w_s) (fmul r w_r)) (fmul f w_f)"
  have "fmul c1 0.15 \<le> fmul c2 0.15"
    using assms(1) by (rule fmul_mono) simp
  then have "fsub ?w (fmul c2 0.15) \<le> fsub ?w (fmul c1 0.15)"
    by (rule fsub_antimono)
  then have "min 1 (fsub ?w (fmul c2 0.15)) \<le> min 1 (fsub ?w (fmul c1 0.15))"
    by (rule min.mono[OF order_refl])
  then have "max 0 (min 1 (fsub ?w (fmul c2 0.15))) \<le> max 0 (min 1 (fsub ?w (fmul c1 0.15)))"
    by (rule max.mono[OF order_refl])
  then have "fmul (max 0 (min 1 (fsub ?w (fmul c2 0.15)))) 100
      \<le> fmul (max 0 (min 1 (fsub ?w (fmul c1 0.15)))) 100"
    by (rule fmul_mono) simp
  then show ?thesis
    unfolding r1 r2 by (rule py_round_mono)
qed

lemma WEIGHTS_semantic: "WEIGHTS ''semantic'' = Some 0.5"
  by (simp add: WEIGHTS_def)

lemma WEIGHTS_relational: "WEIGHTS ''relational'' = Some 0.35"
  by (simp add: WEIGHTS_def)

lemma WEIGHTS_formative: "WEIGHTS ''formative'' = Some 0.15"
  by (simp add: WEIGHTS_def)

lemmas fuse_WEIGHTS =
  fuse_scores_value[OF WEIGHTS_semantic WEIGHTS_relational WEIGHTS_formative]

lemma combined_unfold:
  assumes "normalize_text L a \<noteq> normalize_text L b"
    and "snd (calculate_semantic_similarity M a b) = Inr s"
    and "snd (calculate_relational_similarity L M a b nt ct) = Inr (r, c)"
  shows "snd (calculate_combined_similarity L M a b weights nt ct) =
     snd (fuse_scores weights s r
        (calculate_formative_similarity L (normalize_text L a) (normalize_text L b)) c)"
proof -
  obtain t1 where t1: "calculate_semantic_similarity M a b = (t1, Inr s)"
    using assms(2) by (cases "calculate_semantic_similarity M a b") auto
  obtain t2 where t2: "calculate_relational_similarity L M a b nt ct = (t2, Inr (r, c))"
    using assms(3) by (cases "calculate_relational_similarity L M a b nt ct") auto
  show ?thesis
    using assms(1)
    by (simp add: calculate_combined_similarity_def Let_def t1 t2 bind_run_def split: prod.splits)
qed

lemmas eval_simps = run_simps calculate_combined_similarity_def calculate_semantic_similarity_def
  calculate_relational_similarity_def fuse_scores_def
  dict_item_def dict_get_def mean_def Let_def
  normalize_text_def str_strip_def re_sub_special_def re_sub_whitespace_def
  str_lower_def latin1_lib_def latin1_lower_def latin1_isspace_def latin1_isalnum_def
  re_word_def hangul_syllable_def ascii_def table_models_def WEIGHTS_def
  sample_nli_templates_def sample_contradiction_templates_def
  strong_contradiction_table_def weak_contradiction_table_def

text \<open>Evaluations on the sample guess \<open>ab\<close> and answer \<open>ac\<close>.\<close>

lemma levenshtein_ab_ac: "levenshtein_distance (ascii ''ab'') (ascii ''ac'') = 1"
  by (simp add: levenshtein_distance.simps levenshtein_rows_def levenshtein_row_def ascii_def
      Let_def)

lemma normalize_ab: "normalize_text latin1_lib (ascii ''ab'') = ascii ''ab''"
  by (simp add: eval_simps)

lemma normalize_ac: "normalize_text latin1_lib (ascii ''ac'') = ascii ''ac''"
  by (simp add: eval_simps)

lemma normalize_ab_ac:
  "normalize_text latin1_lib (ascii ''ab'') \<noteq> normalize_text latin1_lib (ascii ''ac'')"
  by (simp add: normalize_ab normalize_ac) (simp add: ascii_def)

lemma formative_ab_ac:
  "calculate_formative_similarity latin1_lib (ascii ''ab'') (ascii ''ac'') = 0.5"
proof -
  have "h2j latin1_lib = (\<lambda>s. s)" by (simp add: latin1_lib_def)
  then show ?thesis
    by (simp add: calculate_formative_similarity_def Let_def levenshtein_ab_ac)
       (simp add: ascii_def float_eval)
qed

lemma semantic_ab_ac:
  "snd (calculate_semantic_similarity (table_models 0.6 table) (ascii ''ab'') (ascii ''ac''))
     = Inr 0.8"
  by (simp add: eval_simps)

lemma relational_strong:
  "snd (calculate_relational_similarity latin1_lib (table_models 0.6 strong_contradiction_table)
          (ascii ''ab'') (ascii ''ac'') sample_nli_templates sample_contradiction_templates)
     = Inr (0.2, 0.8)"
  by (simp add: eval_simps)

lemma relational_weak:
  "snd (calculate_relational_similarity latin1_lib (table_models 0.6 weak_contradiction_table)
          (ascii ''ab'') (ascii ''ac'') sample_nli_templates sample_contradiction_templates)
     = Inr (0.2, 0.3)"
  by (simp add: eval_simps)

lemma fuse_strong:
  "fuse_scores WEIGHTS 0.8 0.2 0.5 0.8 =
     ([], Inr \<lparr> similarity_score = 42.5,
                breakdown = [''semantic'' \<mapsto> 0.8, ''relational'' \<mapsto> 0.2,
                             ''formative'' \<mapsto> 0.5, ''contradiction'' \<mapsto> 0.8] \<rparr>)"
  unfolding fuse_WEIGHTS returns_def
  by (simp add: float_eval)

lemma fuse_weak:
  "fuse_scores WEIGHTS 0.8 0.2 0.5 0.3 =
     ([], Inr \<lparr> similarity_score = 50,
                breakdown = [''semantic'' \<mapsto> 0.8, ''relational'' \<mapsto> 0.2,
                             ''formative'' \<mapsto> 0.5, ''contradiction'' \<mapsto> 0.3] \<rparr>)"
  unfolding fuse_WEIGHTS returns_def
  by (simp add: float_eval)

lemma combined_strong:
  "snd (calculate_combined_similarity latin1_lib (table_models 0.6 strong_contradiction_table)
          (ascii ''ab'') (ascii ''ac'') WEIGHTS sample_nli_templates
          sample_contradiction_templates)
     = Inr \<lparr> similarity_score = 42.5,
             breakdown = [''semantic'' \<mapsto> 0.8, ''relational'' \<mapsto> 0.2,
                          ''formative'' \<mapsto> 0.5, ''contradiction'' \<mapsto> 0.8] \<rparr>"
  by (simp only: combined_unfold[OF normalize_ab_ac semantic_ab_ac relational_strong]
      normalize_ab normalize_ac formative_ab_ac fuse_strong snd_conv)

lemma combined_weak:
  "snd (calculate_combined_similarity latin1_lib (table_models 0.6 weak_contradiction_table)
          (ascii ''ab'') (ascii ''ac'') WEIGHTS sample_nli_templates
          sample_contradiction_templates)
     = Inr \<lparr> similarity_score = 50,
             breakdown = [''semantic'' \<mapsto> 0.8, ''relational'' \<mapsto> 0.2,
                          ''formative'' \<mapsto> 0.5, ''contradiction'' \<mapsto> 0.3] \<rparr>"
  by (simp only: combined_unfold[OF normalize_ab_ac semantic_ab_ac relational_weak]
      normalize_ab normalize_ac formative_ab_ac fuse_weak snd_conv)

text \<open>
  The scenarios of the specification, and inputs on which the rounding decides the
  result: a composite just above a tie of the second decimal, one below it, signals at and
  next to ties of the fourth decimal, composites at exact ties, and the two ends of the
  range.
\<close>

lemma fuse_scenario_B:
  "snd (fuse_scores WEIGHTS 0.8 0.2 0.1 0) =
     Inr \<lparr> similarity_score = 48.5,
           breakdown = [''semantic'' \<mapsto> 0.8, ''relational'' \<mapsto> 0.2,
                        ''formative'' \<mapsto> 0.1, ''contradiction'' \<mapsto> 0] \<rparr>"
  unfolding fuse_WEIGHTS returns_def snd_conv
  by (simp add: float_eval)

lemma fuse_scenario_C:
  "snd (fuse_scores WEIGHTS 0.8 0.2 0.1 0.8) =
     Inr \<lparr> similarity_score = 36.5,
           breakdown = [''semantic'' \<mapsto> 0.8, ''relational'' \<mapsto> 0.2,
                        ''formative'' \<mapsto> 0.1, ''contradiction'' \<mapsto> 0.8] \<rparr>"
  unfolding fuse_WEIGHTS returns_def snd_conv
  by (simp add: float_eval)

lemma fuse_above_tie:
  "snd (fuse_scores WEIGHTS 0.8 0.2 0.5 0.001) =
     Inr \<lparr> similarity_score = 54.49,
           breakdown = [''semantic'' \<mapsto> 0.8, ''relational'' \<mapsto> 0.2,
                        ''formative'' \<mapsto> 0.5, ''contradiction'' \<mapsto> 0.001] \<rparr>"
  unfolding fuse_WEIGHTS returns_def snd_conv
  by (simp add: float_eval)

lemma fuse_below_half:
  "snd (fuse_scores WEIGHTS 0.8 0.2 0.5 0.0011) =
     Inr \<lparr> similarity_score = 54.48,
           breakdown = [''semantic'' \<mapsto> 0.8, ''relational'' \<mapsto> 0.2,
                        ''formative'' \<mapsto> 0.5, ''contradiction'' \<mapsto> 0.0011] \<rparr>"
  unfolding fuse_WEIGHTS returns_def snd_conv
  by (simp add: float_eval)

lemma fuse_breakdown_ties:
  "snd (fuse_scores WEIGHTS 0.12345 0.03125 0.09375 0.00005) =
     Inr \<lparr> similarity_score = 8.67,
           breakdown = [''semantic'' \<mapsto> 0.1235, ''relational'' \<mapsto> 0.0312,
                        ''formative'' \<mapsto> 0.0938, ''contradiction'' \<mapsto> 0.0001] \<rparr>"
  unfolding fuse_WEIGHTS returns_def snd_conv
  by (simp add: float_eval)

lemma fuse_tie_down:
  "snd (fuse_scores WEIGHTS 0.0025 0 0 0) =
     Inr \<lparr> similarity_score = 0.12,
           breakdown = [''semantic'' \<mapsto> 0.0025, ''relational'' \<mapsto> 0,
                        ''formative'' \<mapsto> 0, ''contradiction'' \<mapsto> 0] \<rparr>"
  unfolding fuse_WEIGHTS returns_def snd_conv
  by (simp add: float_eval)

lemma fuse_tie_up:
  "snd (fuse_scores WEIGHTS 0.0075 0 0 0) =
     Inr \<lparr> similarity_score = 0.38,
           breakdown = [''semantic'' \<mapsto> 0.0075, ''relational'' \<mapsto> 0,
                        ''formative'' \<mapsto> 0, ''contradiction'' \<mapsto> 0] \<rparr>"
  unfolding fuse_WEIGHTS returns_def snd_conv
  by (simp add: float_eval)

lemma fuse_clip_low:
  "snd (fuse_scores WEIGHTS 0 0 0 1) =
     Inr \<lparr> similarity_score = 0,
           breakdown = [''semantic'' \<mapsto> 0, ''relational'' \<mapsto> 0,
                        ''formative'' \<mapsto> 0, ''contradiction'' \<mapsto> 1] \<rparr>"
  unfolding fuse_WEIGHTS returns_def snd_conv
  by (simp add: float_eval)

lemma fuse_full:
  "snd (fuse_scores WEIGHTS 1 1 1 0) =
     Inr \<lparr> similarity_score = 100,
           breakdown = [''semantic'' \<mapsto> 1, ''relational'' \<mapsto> 1,
                        ''formative'' \<mapsto> 1, ''contradiction'' \<mapsto> 0] \<rparr>"
  unfolding fuse_WEIGHTS returns_def snd_conv
  by (simp add: float_eval)

text \<open>
  C3. When the guess and the answer do not normalise to the same text and the scorers
  return the signals \<open>semantic\<close>, \<open>relational\<close>, \<open>contradiction\<close> and
  \<open>formative\<close>, the composite is
  \<open>round(clamp(semantic * w_semantic + relational * w_relational + formative * w_formative
  - contradiction * 0.15, 0, 1) * 100, 2)\<close>, the operations being those of Python floats,
  and the breakdown holds the four signals, each rounded to 4 decimals, the contradiction
  unpenalised. With the configured weights \<open>(0.50, 0.35, 0.15)\<close> the signals
  \<open>(0.8, 0.2, 0.1, 0.0)\<close> give 48.5, and with contradiction 0.8 they give 36.5. The
  rounding is to the nearest, ties to even, of the double that was computed: the signals
  \<open>(0.8, 0.2, 0.5, 0.001)\<close> give 54.49 and with contradiction 0.0011 give 54.48; the
  signals \<open>(0.12345, 0.03125, 0.09375, 0.00005)\<close> are reported as
  \<open>(0.1235, 0.0312, 0.0938, 0.0001)\<close>; a semantic signal 0.0025 alone gives 0.12 and
  0.0075 gives 0.38; the composite is 0 when the penalty exceeds the weighted sum.
\<close>

theorem combined_similarity_formula:
  assumes "normalize_text L a \<noteq> normalize_text L b"
    and "snd (calculate_semantic_similarity M a b) = Inr semantic"
    and "snd (calculate_relational_similarity L M a b nt ct) = Inr (relational, contradiction)"
    and "formative = calculate_formative_similarity L (normalize_text L a) (normalize_text L b)"
    and "weights ''semantic'' = Some w_semantic"
    and "weights ''relational'' = Some w_relational"
    and "weights ''formative'' = Some w_formative"
  shows "snd (calculate_combined_similarity L M a b weights nt ct) =
           Inr \<lparr> similarity_score =
                   py_round
                     (fmul
                        (max 0 (min 1
                           (fsub
                              (fadd (fadd (fmul semantic w_semantic)
                                          (fmul relational w_relational))
                                    (fmul formative w_formative))
                              (fmul contradiction 0.15))))
                        100) 2,
                 breakdown =
                   [''semantic'' \<mapsto> py_round semantic 4,
                    ''relational'' \<mapsto> py_round relational 4,
                    ''formative'' \<mapsto> py_round formative 4,
                    ''contradiction'' \<mapsto> py_round contradiction 4] \<rparr>
         \<and> snd (fuse_scores WEIGHTS 0.8 0.2 0.1 0) =
           Inr \<lparr> similarity_score = 48.5,
                 breakdown = [''semantic'' \<mapsto> 0.8, ''relational'' \<mapsto> 0.2,
                              ''formative'' \<mapsto> 0.1, ''contradiction'' \<mapsto> 0] \<rparr>
         \<and> snd (fuse_scores WEIGHTS 0.8 0.2 0.1 0.8) =
           Inr \<lparr> similarity_score = 36.5,
                 breakdown = [''semantic'' \<mapsto> 0.8, ''relational'' \<mapsto> 0.2,
                              ''formative'' \<mapsto> 0.1, ''contradiction'' \<mapsto> 0.8] \<rparr>
         \<and> snd (fuse_scores WEIGHTS 0.8 0.2 0.5 0.001) =
           Inr \<lparr> similarity_score = 54.49,
                 breakdown = [''semantic'' \<mapsto> 0.8, ''relational'' \<mapsto> 0.2,
                              ''formative'' \<mapsto> 0.5, ''contradiction'' \<mapsto> 0.001] \<rparr>
         \<and> snd (fuse_scores WEIGHTS 0.8 0.2 0.5 0.0011) =
           Inr \<lparr> similarity_score = 54.48,
                 breakdown = [''semantic'' \<mapsto> 0.8, ''relational'' \<mapsto> 0.2,
                              ''formative'' \<mapsto> 0.5, ''contradiction'' \<mapsto> 0.0011] \<rparr>
         \<and> snd (fuse_scores WEIGHTS 0.12345 0.03125 0.09375 0.00005) =
           Inr \<lparr> similarity_score = 8.67,
                 breakdown = [''semantic'' \<mapsto> 0.1235, ''relational'' \<mapsto> 0.0312,
                              ''formative'' \<mapsto> 0.0938, ''contradiction'' \<mapsto> 0.0001] \<rparr>
         \<and> snd (fuse_scores WEIGHTS 0.0025 0 0 0) =
           Inr \<lparr> similarity_score = 0.12,
                 breakdown = [''semantic'' \<mapsto> 0.0025, ''relational'' \<mapsto> 0,
                              ''formative'' \<mapsto> 0, ''contradiction'' \<mapsto> 0] \<rparr>
         \<and> snd (fuse_scores WEIGHTS 0.0075 0 0 0) =
           Inr \<lparr> similarity_score = 0.38,
                 breakdown = [''semantic'' \<mapsto> 0.0075, ''relational'' \<mapsto> 0,
                              ''formative'' \<mapsto> 0, ''contradiction'' \<mapsto> 0] \<rparr>
         \<and> snd (fuse_scores WEIGHTS 0 0 0 1) =
           Inr \<lparr> similarity_score = 0,
                 breakdown = [''semantic'' \<mapsto> 0, ''relational'' \<mapsto> 0,
                              ''formative'' \<mapsto> 0, ''contradiction'' \<mapsto> 1] \<rparr>"
proof (intro conjI)
  show "snd (calculate_combined_similarity L M a b weights nt ct) =
           Inr \<lparr> similarity_score =
                   py_round
                     (fmul
                        (max 0 (min 1
                           (fsub
                              (fadd (fadd (fmul semantic w_semantic)
                                          (fmul relational w_relational))
                                    (fmul formative w_formative))
                              (fmul contradiction 0.15))))
                        100) 2,
                 breakdown =
                   [''semantic'' \<mapsto> py_round semantic 4,
                    ''relational'' \<mapsto> py_round relational 4,
                    ''formative'' \<mapsto> py_round formative 4,
                    ''contradiction'' \<mapsto> py_round contradiction 4] \<rparr>"
    unfolding combined_unfold[OF assms(1,2,3)] assms(4)[symmetric]
      fuse_scores_value[OF assms(5,6,7)]
    by (simp add: returns_def)
qed (rule fuse_scenario_B fuse_scenario_C fuse_above_tie fuse_below_half fuse_breakdown_ties
      fuse_tie_down fuse_tie_up fuse_clip_low)+

text \<open>
  An instance of C3, run through the scorers: cosine 0.6, one affirmative hypothesis
  entailed at 0.2, one opposite hypothesis entailed at 0.8, edit distance 1 of 2.
\<close>

theorem combined_similarity_formula_witness:
  "normalize_text latin1_lib (ascii ''ab'') \<noteq> normalize_text latin1_lib (ascii ''ac'')
   \<and> snd (calculate_semantic_similarity (table_models 0.6 strong_contradiction_table)
            (ascii ''ab'') (ascii ''ac'')) = Inr 0.8
   \<and> snd (calculate_relational_similarity latin1_lib
            (table_models 0.6 strong_contradiction_table) (ascii ''ab'') (ascii ''ac'')
            sample_nli_templates sample_contradiction_templates) = Inr (0.2, 0.8)
   \<and> calculate_formative_similarity latin1_lib (normalize_text latin1_lib (ascii ''ab''))
        (normalize_text latin1_lib (ascii ''ac'')) = 0.5
   \<and> WEIGHTS ''semantic'' = Some 0.5
   \<and> WEIGHTS ''relational'' = Some 0.35
   \<and> WEIGHTS ''formative'' = Some 0.15
   \<and> snd (calculate_combined_similarity latin1_lib
            (table_models 0.6 strong_contradiction_table) (ascii ''ab'') (ascii ''ac'') WEIGHTS
            sample_nli_templates sample_contradiction_templates) =
       Inr \<lparr> similarity_score = 42.5,
             breakdown = [''semantic'' \<mapsto> 0.8, ''relational'' \<mapsto> 0.2,
                          ''formative'' \<mapsto> 0.5, ''contradiction'' \<mapsto> 0.8] \<rparr>"
proof -
  have f: "0.5 = calculate_formative_similarity latin1_lib
             (normalize_text latin1_lib (ascii ''ab'')) (normalize_text latin1_lib (ascii ''ac''))"
    by (simp only: normalize_ab normalize_ac formative_ab_ac)
  have w1: "WEIGHTS ''semantic'' = Some 0.5" by (simp add: WEIGHTS_def)
  have w2: "WEIGHTS ''relational'' = Some 0.35" by (simp add: WEIGHTS_def)
  have w3: "WEIGHTS ''formative'' = Some 0.15" by (simp add: WEIGHTS_def)
  have "snd (calculate_combined_similarity latin1_lib
            (table_models 0.6 strong_contradiction_table) (ascii ''ab'') (ascii ''ac'') WEIGHTS
            sample_nli_templates sample_contradiction_templates) =
       Inr \<lparr> similarity_score = 42.5,
             breakdown = [''semantic'' \<mapsto> 0.8, ''relational'' \<mapsto> 0.2,
                          ''formative'' \<mapsto> 0.5, ''contradiction'' \<mapsto> 0.8] \<rparr>"
    using combined_similarity_formula
      [OF normalize_ab_ac semantic_ab_ac relational_strong f w1 w2 w3, THEN conjunct1]
    by (simp add: float_eval)
  then show ?thesis
    using normalize_ab_ac semantic_ab_ac[of strong_contradiction_table] relational_strong
      f[symmetric] w1 w2 w3
    by (intro conjI)
qed

text \<open>
  C7. Between two runs on the same guess, answer, templates and weights whose semantic
  and relational signals agree, the run with the greater contradiction signal has the
  smaller or equal composite score.
\<close>

theorem contradiction_monotone:
  assumes "normalize_text L a \<noteq> normalize_text L b"
    and "snd (calculate_semantic_similarity M1 a b) = Inr s"
    and "snd (calculate_semantic_similarity M2 a b) = Inr s"
    and "snd (calculate_relational_similarity L M1 a b nt ct) = Inr (r, c1)"
    and "snd (calculate_relational_similarity L M2 a b nt ct) = Inr (r, c2)"
    and "c1 \<le> c2"
    and "snd (calculate_combined_similarity L M1 a b weights nt ct) = Inr res1"
    and "snd (calculate_combined_similarity L M2 a b weights nt ct) = Inr res2"
  shows "similarity_score res2 \<le> similarity_score res1"
proof -
  let ?f = "calculate_formative_similarity L (normalize_text L a) (normalize_text L b)"
  have 1: "snd (fuse_scores weights s r ?f c1) = Inr res1"
    using combined_unfold[OF assms(1,2,4), of weights] assms(7) by simp
  have 2: "snd (fuse_scores weights s r ?f c2) = Inr res2"
    using combined_unfold[OF assms(1,3,5), of weights] assms(8) by simp
  show ?thesis
    by (rule fuse_scores_monotone[OF assms(6) 1 2])
qed

text \<open>
  An instance of C7: the opposite hypothesis entailed at 0.3 gives 50.0, at 0.8 gives 42.5.
\<close>

theorem contradiction_monotone_witness:
  "normalize_text latin1_lib (ascii ''ab'') \<noteq> normalize_text latin1_lib (ascii ''ac'')
   \<and> snd (calculate_relational_similarity latin1_lib
            (table_models 0.6 weak_contradiction_table) (ascii ''ab'') (ascii ''ac'')
            sample_nli_templates sample_contradiction_templates) = Inr (0.2, 0.3)
   \<and> snd (calculate_relational_similarity latin1_lib
            (table_models 0.6 strong_contradiction_table) (ascii ''ab'') (ascii ''ac'')
            sample_nli_templates sample_contradiction_templates) = Inr (0.2, 0.8)
   \<and> snd (calculate_combined_similarity latin1_lib
            (table_models 0.6 weak_contradiction_table) (ascii ''ab'') (ascii ''ac'') WEIGHTS
            sample_nli_templates sample_contradiction_templates) =
       Inr \<lparr> similarity_score = 50,
             breakdown = [''semantic'' \<mapsto> 0.8, ''relational'' \<mapsto> 0.2,
                          ''formative'' \<mapsto> 0.5, ''contradiction'' \<mapsto> 0.3] \<rparr>
   \<and> snd (calculate_combined_similarity latin1_lib
            (table_models 0.6 strong_contradiction_table) (ascii ''ab'') (ascii ''ac'') WEIGHTS
            sample_nli_templates sample_contradiction_templates) =
       Inr \<lparr> similarity_score = 42.5,
             breakdown = [''semantic'' \<mapsto> 0.8, ''relational'' \<mapsto> 0.2,
                          ''formative'' \<mapsto> 0.5, ''contradiction'' \<mapsto> 0.8] \<rparr>
   \<and> (42.5 :: rat) \<le> 50"
proof -
  have le: "(0.3 :: rat) \<le> 0.8" by simp
  have "similarity_score
          \<lparr> similarity_score = 42.5,
            breakdown = [''semantic'' \<mapsto> 0.8, ''relational'' \<mapsto> 0.2,
                         ''formative'' \<mapsto> 0.5, ''contradiction'' \<mapsto> 0.8] \<rparr>
        \<le> similarity_score
          \<lparr> similarity_score = 50,
            breakdown = [''semantic'' \<mapsto> 0.8, ''relational'' \<mapsto> 0.2,
                         ''formative'' \<mapsto> 0.5, ''contradiction'' \<mapsto> 0.3] \<rparr>"
    by (rule contradiction_monotone
        [OF normalize_ab_ac semantic_ab_ac semantic_ab_ac relational_weak relational_strong le
          combined_weak combined_strong])
  then show ?thesis
    using normalize_ab_ac relational_weak relational_strong combined_weak combined_strong
    by simp
qed

text \<open>Evaluation of the normaliser on a guess with a capital and a trailing space.\<close>

lemma normalize_Friend:
  "normalize_text latin1_lib (ascii ''Friend '') = normalize_text latin1_lib (ascii ''friend'')"
  by (simp add: eval_simps)

text \<open>
  C2. When the guess and the answer normalise to the same text,
  \<open>calculate_combined_similarity\<close> returns score 100 with breakdown
  \<open>(1, 1, 1, 0)\<close> and makes no capability invocation; the request handler likewise
  answers with score 100, the same breakdown and its fixed hint, and invokes nothing.
\<close>

theorem exact_match_short_circuit:
  assumes "normalize_text L guess = normalize_text L answer"
  shows "calculate_combined_similarity L M guess answer weights nt ct =
           ([], Inr \<lparr> similarity_score = 100,
                      breakdown = [''semantic'' \<mapsto> 1, ''relational'' \<mapsto> 1,
                                   ''formative'' \<mapsto> 1, ''contradiction'' \<mapsto> 0] \<rparr>)
         \<and> calculate_similarity L (Some M) (Some H) guess answer =
           ([], Inr \<lparr> response_score = 100,
                      hint = identical_word_hint,
                      category_match = True,
                      response_breakdown = [''semantic'' \<mapsto> 1, ''relational'' \<mapsto> 1,
                                            ''formative'' \<mapsto> 1, ''contradiction'' \<mapsto> 0] \<rparr>)"
  using assms
  by (simp add: calculate_combined_similarity_def calculate_similarity_def returns_def)

text \<open>
  An instance of C2, with capabilities that would raise if they were invoked.
\<close>

theorem exact_match_short_circuit_witness:
  "normalize_text latin1_lib (ascii ''Friend '') = normalize_text latin1_lib (ascii ''friend'')
   \<and> calculate_combined_similarity latin1_lib failing_models (ascii ''Friend '')
        (ascii ''friend'') WEIGHTS NLI_TEMPLATES CONTRADICTION_TEMPLATES =
       ([], Inr \<lparr> similarity_score = 100,
                  breakdown = [''semantic'' \<mapsto> 1, ''relational'' \<mapsto> 1,
                               ''formative'' \<mapsto> 1, ''contradiction'' \<mapsto> 0] \<rparr>)
   \<and> calculate_similarity latin1_lib (Some failing_models) (Some configured_hint_generator)
        (ascii ''Friend '') (ascii ''friend'') =
       ([], Inr \<lparr> response_score = 100,
                  hint = identical_word_hint,
                  category_match = True,
                  response_breakdown = [''semantic'' \<mapsto> 1, ''relational'' \<mapsto> 1,
                                        ''formative'' \<mapsto> 1, ''contradiction'' \<mapsto> 0] \<rparr>)"
  using exact_match_short_circuit[OF normalize_Friend] normalize_Friend
  by blast

section \<open>Properties of the hint generator\<close>

lemma get_base_hint_nonempty:
  assumes "0 \<le> score"
    and "0 \<in> fst ` set (hint_thresholds H)"
    and "\<forall>e \<in> set (hint_thresholds H). snd e \<noteq> []"
  shows "\<exists>h. get_base_hint H score = returns h \<and> h \<noteq> []"
proof -
  let ?keys = "rev (sort (map fst (hint_thresholds H)))"
  have "0 \<in> set ?keys" using assms(2) by simp
  moreover have "of_int 0 \<le> score" using assms(1) by simp
  ultimately have "find (\<lambda>threshold. of_int threshold \<le> score) ?keys \<noteq> None"
    unfolding find_None_iff by blast
  then obtain t where t: "find (\<lambda>threshold. of_int threshold \<le> score) ?keys = Some t"
    by blast
  then have "t \<in> set ?keys"
    unfolding find_Some_iff by (metis nth_mem)
  then have "t \<in> fst ` set (hint_thresholds H)" by simp
  then obtain v where v: "map_of (hint_thresholds H) t = Some v"
    by (metis domD dom_map_of_conv_image_fst)
  then have "(t, v) \<in> set (hint_thresholds H)" by (rule map_of_SomeD)
  then have "v \<noteq> []" using assms(3) by auto
  moreover have "get_base_hint H score = returns v"
    using t v by (simp add: get_base_hint_def dict_item_def)
  ultimately show ?thesis by blast
qed

text \<open>
  C10. For a non-negative score, a threshold table with an entry for 0 and no empty
  base hint, \<open>generate_hint\<close> returns (it raises no \<open>KeyError\<close>) and the hint
  it returns is not empty, whatever the breakdown and the relationship.
\<close>

theorem generate_hint_nonempty:
  assumes "0 \<le> score"
    and "0 \<in> fst ` set (hint_thresholds H)"
    and "\<forall>e \<in> set (hint_thresholds H). snd e \<noteq> []"
  shows "\<exists>h. generate_hint H score bd user_input answer relationship_type
                relationship_confidence = returns h \<and> h \<noteq> []"
proof -
  from get_base_hint_nonempty[OF assms] obtain base where
    base: "get_base_hint H score = returns base" "base \<noteq> []"
    by blast
  show ?thesis
    by (simp add: generate_hint_def Let_def base bind_run_def returns_def
        correct_answer_hint_def)
qed

text \<open>
  C6. In the composition step (the score is not 100), when the contextual hint and the
  detail hint are both non-empty, the result is \<open>"{contextual}. {detail}"\<close> if the
  score is at least 60 and the contextual hint alone otherwise. In particular, at
  contradiction 0.7 and score 55 the detail hint is the opposite-meaning literal, and
  with a contextual hint present the result is the contextual hint alone.
\<close>

theorem hint_composition:
  "(score \<noteq> 100
      \<and> generate_contextual_hint H user_input score relationship_type relationship_confidence \<noteq> []
      \<and> get_detail_hint H bd score \<noteq> []
    \<longrightarrow> generate_hint H score bd user_input answer relationship_type relationship_confidence =
          returns
            (if 60 \<le> score
             then generate_contextual_hint H user_input score relationship_type
                    relationship_confidence
                  @ ascii ''. '' @ get_detail_hint H bd score
             else generate_contextual_hint H user_input score relationship_type
                    relationship_confidence))
   \<and> (bd ''contradiction'' = Some 0.7
      \<and> generate_contextual_hint H user_input 55 relationship_type relationship_confidence \<noteq> []
    \<longrightarrow> get_detail_hint H bd 55 = opposite_meaning_hint
        \<and> generate_hint H 55 bd user_input answer relationship_type relationship_confidence =
          returns
            (generate_contextual_hint H user_input 55 relationship_type
               relationship_confidence))"
  by (simp add: generate_hint_def Let_def get_detail_hint_def dict_get_def)

text \<open>
  C9. When the contradiction of the breakdown exceeds 0.6, the detail hint is the
  hard-coded literal; \<open>generate_hint\<close> returns the same on every input for two
  generators that differ only in the \<open>"contradiction"\<close> entry of
  \<open>detail_suffixes\<close> (changed or removed); and the literal is not the suffix
  configured under that key.
\<close>

theorem contradiction_suffix_unused:
  "(0.6 < dict_get bd ''contradiction'' 0 \<longrightarrow> get_detail_hint H bd score = opposite_meaning_hint)
   \<and> generate_hint (H\<lparr>detail_suffixes := (detail_suffixes H)(''contradiction'' := v)\<rparr>)
        score bd user_input answer relationship_type relationship_confidence
     = generate_hint H score bd user_input answer relationship_type relationship_confidence
   \<and> DETAIL_HINT_SUFFIX ''contradiction'' \<noteq> Some opposite_meaning_hint"
proof (intro conjI)
  let ?H = "H\<lparr>detail_suffixes := (detail_suffixes H)(''contradiction'' := v)\<rparr>"
  show "0.6 < dict_get bd ''contradiction'' 0 \<longrightarrow>
          get_detail_hint H bd score = opposite_meaning_hint"
    by (simp add: get_detail_hint_def Let_def)
  have s1: "dict_get (detail_suffixes ?H) ''semantic_high'' semantic_high_default
            = dict_get (detail_suffixes H) ''semantic_high'' semantic_high_default"
    by (simp add: dict_get_def)
  have s2: "dict_get (detail_suffixes ?H) ''relational_high'' relational_high_default
            = dict_get (detail_suffixes H) ''relational_high'' relational_high_default"
    by (simp add: dict_get_def)
  have s3: "dict_get (detail_suffixes ?H) ''formative_high'' formative_high_default
            = dict_get (detail_suffixes H) ''formative_high'' formative_high_default"
    by (simp add: dict_get_def)
  have d: "get_detail_hint ?H bd score = get_detail_hint H bd score"
    by (simp only: get_detail_hint_def s1 s2 s3)
  have ct: "contextual_templates ?H = contextual_templates H"
    by simp
  have ht: "hint_thresholds ?H = hint_thresholds H"
    by simp
  have c: "generate_contextual_hint ?H user_input score relationship_type
             relationship_confidence
           = generate_contextual_hint H user_input score relationship_type
               relationship_confidence"
    by (simp only: generate_contextual_hint_def ct)
  have b: "get_base_hint ?H score = get_base_hint H score"
    by (simp only: get_base_hint_def ht)
  show "generate_hint ?H score bd user_input answer relationship_type relationship_confidence
     = generate_hint H score bd user_input answer relationship_type relationship_confidence"
    by (simp only: generate_hint_def d c b)
  show "DETAIL_HINT_SUFFIX ''contradiction'' \<noteq> Some opposite_meaning_hint"
    by (simp add: DETAIL_HINT_SUFFIX_def opposite_meaning_hint_def)
qed

lemmas hint_simps = generate_hint_def generate_contextual_hint_def get_detail_hint_def
  get_base_hint_def dict_get_def dict_item_def bind_run_def returns_def raises_def Let_def
  configured_hint_generator_def str_replace_def

text \<open>Evaluations with the configured generator.\<close>

lemma contextual_rain_55:
  "generate_contextual_hint configured_hint_generator (ascii ''rain'') 55
     (Some situation_type) 0.8 = rain_situation_hint"
  by (simp add: hint_simps CONTEXTUAL_HINT_TEMPLATES_def ascii_def situation_type_def
      rain_situation_hint_def)

lemma contextual_rain_70:
  "generate_contextual_hint configured_hint_generator (ascii ''rain'') 70
     (Some situation_type) 0.8 = rain_situation_hint"
  by (simp add: hint_simps CONTEXTUAL_HINT_TEMPLATES_def ascii_def situation_type_def
      rain_situation_hint_def)

lemma detail_contradiction:
  "get_detail_hint configured_hint_generator [''contradiction'' \<mapsto> 0.7] score
     = opposite_meaning_hint"
  by (simp add: hint_simps)

lemma rain_situation_hint_nonempty: "rain_situation_hint \<noteq> []"
  by (simp add: rain_situation_hint_def ascii_def)

lemma opposite_meaning_hint_nonempty: "opposite_meaning_hint \<noteq> []"
  by (simp add: opposite_meaning_hint_def)

text \<open>
  An instance of C6 (scenario E): contradiction 0.7 with a contextual hint present; at
  score 55 the detail hint is dropped, at score 70 it is appended.
\<close>

theorem hint_composition_witness:
  "(55 :: rat) \<noteq> 100
   \<and> generate_contextual_hint configured_hint_generator (ascii ''rain'') 55
        (Some situation_type) 0.8 = rain_situation_hint
   \<and> rain_situation_hint \<noteq> []
   \<and> get_detail_hint configured_hint_generator [''contradiction'' \<mapsto> 0.7] 55
        = opposite_meaning_hint
   \<and> opposite_meaning_hint \<noteq> []
   \<and> generate_hint configured_hint_generator 55 [''contradiction'' \<mapsto> 0.7] (ascii ''rain'')
        (ascii ''flood'') (Some situation_type) 0.8 = returns rain_situation_hint
   \<and> generate_hint configured_hint_generator 70 [''contradiction'' \<mapsto> 0.7] (ascii ''rain'')
        (ascii ''flood'') (Some situation_type) 0.8
        = returns (rain_situation_hint @ ascii ''. '' @ opposite_meaning_hint)"
proof -
  have a: "generate_hint configured_hint_generator 55 [''contradiction'' \<mapsto> 0.7]
             (ascii ''rain'') (ascii ''flood'') (Some situation_type) 0.8
           = returns rain_situation_hint"
    using hint_composition
      [where score = 55 and H = configured_hint_generator and user_input = "ascii ''rain''"
         and relationship_type = "Some situation_type" and relationship_confidence = "0.8"
         and bd = "[''contradiction'' \<mapsto> 0.7]" and answer = "ascii ''flood''",
       unfolded contextual_rain_55 detail_contradiction]
    by (simp add: rain_situation_hint_nonempty opposite_meaning_hint_nonempty)
  have b: "generate_hint configured_hint_generator 70 [''contradiction'' \<mapsto> 0.7]
             (ascii ''rain'') (ascii ''flood'') (Some situation_type) 0.8
           = returns (rain_situation_hint @ ascii ''. '' @ opposite_meaning_hint)"
    using hint_composition
      [where score = 70 and H = configured_hint_generator and user_input = "ascii ''rain''"
         and relationship_type = "Some situation_type" and relationship_confidence = "0.8"
         and bd = "[''contradiction'' \<mapsto> 0.7]" and answer = "ascii ''flood''",
       unfolded contextual_rain_70 detail_contradiction]
    by (simp add: rain_situation_hint_nonempty opposite_meaning_hint_nonempty)
  show ?thesis
    using a b contextual_rain_55 detail_contradiction[of 55] rain_situation_hint_nonempty
      opposite_meaning_hint_nonempty
    by simp
qed

text \<open>
  An instance of C9: at contradiction 0.7 the configured generator returns the literal.
\<close>

theorem contradiction_suffix_unused_witness:
  "0.6 < dict_get [''contradiction'' \<mapsto> 0.7] ''contradiction'' (0 :: rat)
   \<and> get_detail_hint configured_hint_generator [''contradiction'' \<mapsto> 0.7] 55
        = opposite_meaning_hint"
  using contradiction_suffix_unused
    [where bd = "[''contradiction'' \<mapsto> 0.7]" and H = configured_hint_generator
       and score = 55]
  by (simp add: dict_get_def)

text \<open>
  An instance of C10: score 10 and an unconfident relationship give the base hint of the
  threshold 0.
\<close>

theorem generate_hint_nonempty_witness:
  "(0 :: rat) \<le> 10
   \<and> 0 \<in> fst ` set (hint_thresholds configured_hint_generator)
   \<and> [] \<notin> snd ` set (hint_thresholds configured_hint_generator)
   \<and> generate_hint configured_hint_generator 10 Map.empty (ascii ''rain'') (ascii ''flood'')
        (Some general) 0 = returns (snd (last HINT_THRESHOLDS))
   \<and> snd (last HINT_THRESHOLDS) \<noteq> []"
proof -
  have h1: "(0 :: rat) \<le> 10" by simp
  have h2: "0 \<in> fst ` set (hint_thresholds configured_hint_generator)"
    by (simp add: configured_hint_generator_def HINT_THRESHOLDS_def)
  have h3: "\<forall>e \<in> set (hint_thresholds configured_hint_generator). snd e \<noteq> []"
    by (simp add: configured_hint_generator_def HINT_THRESHOLDS_def)
  have h3': "[] \<notin> snd ` set (hint_thresholds configured_hint_generator)"
    by (simp add: configured_hint_generator_def HINT_THRESHOLDS_def)
  have v: "generate_hint configured_hint_generator 10 Map.empty (ascii ''rain'')
             (ascii ''flood'') (Some general) 0 = returns (snd (last HINT_THRESHOLDS))"
    by (simp add: hint_simps HINT_THRESHOLDS_def CONTEXTUAL_HINT_TEMPLATES_def general_def)
  from generate_hint_nonempty[OF h1 h2 h3, of Map.empty "ascii ''rain''" "ascii ''flood''"
      "Some general" 0]
  have "snd (last HINT_THRESHOLDS) \<noteq> []"
    by (simp add: v returns_def)
  then show ?thesis
    using h1 h2 h3' v by simp
qed

end
